theory Spec2Isabelle
  imports Main
begin

section \<open>Dates\<close>

text \<open>
  A JavaScript \<open>Date\<close> is a number of milliseconds since the epoch. The routes read and
  write it in the server's local time (\<open>setHours\<close>, \<open>setDate\<close>, \<open>new Date(y, m, d)\<close>);
  the local zone is the parameter \<open>tz\<close>, the offset of local time from UTC in
  milliseconds. The offset is fixed: daylight saving is not modelled, so every local day
  has \<open>msPerDay\<close> milliseconds.
\<close>

type_synonym timestamp = int
type_synonym objectId = nat

definition msPerDay :: int where
  "msPerDay = 86400000"

text \<open>The local calendar day a timestamp falls on, as a day number.\<close>

definition localDay :: "int \<Rightarrow> timestamp \<Rightarrow> int" where
  "localDay tz t = (t + tz) div msPerDay"

text \<open>\<open>d.setHours(0, 0, 0, 0)\<close> and \<open>d.setHours(23, 59, 59, 999)\<close>.\<close>

definition setHoursStart :: "int \<Rightarrow> timestamp \<Rightarrow> timestamp" where
  "setHoursStart tz t = t - (t + tz) mod msPerDay"

definition setHoursEnd :: "int \<Rightarrow> timestamp \<Rightarrow> timestamp" where
  "setHoursEnd tz t = setHoursStart tz t + (msPerDay - 1)"

text \<open>
  The loop of both leave routes:
  \<^verbatim>\<open>while (currentDate <= end) { dateRange.push(new Date(currentDate));
                                 currentDate.setDate(currentDate.getDate() + 1); }\<close>
\<close>

function dateRange :: "timestamp \<Rightarrow> timestamp \<Rightarrow> timestamp list" where
  "dateRange currentDate endDate =
     (if currentDate \<le> endDate
      then currentDate # dateRange (currentDate + msPerDay) endDate
      else [])"
  by pat_completeness auto
termination
  by (relation "measure (\<lambda>(c, e). nat (e - c + 1))") (auto simp: msPerDay_def)

declare dateRange.simps [simp del]

text \<open>
  The day number of a civil date and back (proleptic Gregorian calendar, day 0 is
  1970-01-01), as \<open>Date\<close> computes them; months are 1 to 12 here.
\<close>

definition daysFromCivil :: "int \<Rightarrow> int \<Rightarrow> int \<Rightarrow> int" where
  "daysFromCivil y m d =
     (let y' = (if m \<le> 2 then y - 1 else y);
          era = y' div 400;
          yoe = y' - era * 400;
          doy = (153 * (if m > 2 then m - 3 else m + 9) + 2) div 5 + d - 1;
          doe = yoe * 365 + yoe div 4 - yoe div 100 + doy
      in era * 146097 + doe - 719468)"

definition civilFromDays :: "int \<Rightarrow> int \<times> int \<times> int" where
  "civilFromDays z =
     (let z' = z + 719468;
          era = z' div 146097;
          doe = z' - era * 146097;
          yoe = (doe - doe div 1460 + doe div 36524 - doe div 146096) div 365;
          doy = doe - (365 * yoe + yoe div 4 - yoe div 100);
          mp = (5 * doy + 2) div 153;
          d = doy - (153 * mp + 2) div 5 + 1;
          m = (if mp < 10 then mp + 3 else mp - 9)
      in (if m \<le> 2 then yoe + era * 400 + 1 else yoe + era * 400, m, d))"

text \<open>
  \<open>new Date(year, monthIndex, day)\<close>: local midnight of that date. A month index outside
  0 to 11 carries into the year, a day outside the month carries into the neighbouring
  month (\<open>new Date(y, m, 0)\<close> is the last day of month \<open>m\<close>), and a year from 0 to 99 means
  1900 plus that year.
\<close>

definition newDate :: "int \<Rightarrow> int \<Rightarrow> int \<Rightarrow> int \<Rightarrow> timestamp" where
  "newDate tz year monthIndex day =
     (let yr = (if 0 \<le> year \<and> year \<le> 99 then 1900 + year else year)
      in (daysFromCivil (yr + monthIndex div 12) (monthIndex mod 12 + 1) 1 + day - 1)
           * msPerDay - tz)"

text \<open>\<open>d.toISOString().split('T')[0]\<close>: the UTC date of a timestamp, as (year, month, day).\<close>

definition isoDate :: "timestamp \<Rightarrow> int \<times> int \<times> int" where
  "isoDate t = civilFromDays (t div msPerDay)"

section \<open>Overlap of two date intervals\<close>

text \<open>
  The filter the source writes three times (in \<open>GET /leaves\<close>, \<open>POST /leaves\<close> and
  \<open>GET /leaves/calendar\<close>), on a stored leave \<open>[aStart, aEnd]\<close> and a window
  \<open>[bStart, bEnd]\<close>:
  \<^verbatim>\<open>$or: [ { startDate: { $gte: bStart, $lte: bEnd } },
         { endDate:   { $gte: bStart, $lte: bEnd } },
         { $and: [ { startDate: { $lte: bStart } }, { endDate: { $gte: bEnd } } ] } ]\<close>
\<close>

definition overlapQuery :: "timestamp \<Rightarrow> timestamp \<Rightarrow> timestamp \<Rightarrow> timestamp \<Rightarrow> bool" where
  "overlapQuery aStart aEnd bStart bEnd =
     ((bStart \<le> aStart \<and> aStart \<le> bEnd)
      \<or> (bStart \<le> aEnd \<and> aEnd \<le> bEnd)
      \<or> (aStart \<le> bStart \<and> bEnd \<le> aEnd))"

text \<open>The predicate of the specification: the closed intervals intersect.\<close>

definition overlaps_spec :: "timestamp \<Rightarrow> timestamp \<Rightarrow> timestamp \<Rightarrow> timestamp \<Rightarrow> bool" where
  "overlaps_spec aStart aEnd bStart bEnd = (aStart \<le> bEnd \<and> bStart \<le> aEnd)"

section \<open>Documents and collections\<close>

text \<open>
  The Mongoose schemas, with the fields the routes read or write. A status is the string
  the source stores and compares. A collection is the list of its documents in insertion
  order; \<open>nextId\<close> stands for the generation of fresh \<open>ObjectId\<close>s.
\<close>

record employee =
  e_id :: objectId
  e_name :: string
  e_position :: string
  e_department :: string
  e_status :: string

record attendance =
  a_id :: objectId
  a_employee :: objectId
  a_date :: timestamp
  a_status :: string
  a_createdBy :: objectId
  a_createdAt :: timestamp

record leave =
  l_id :: objectId
  l_employee :: objectId
  l_startDate :: timestamp
  l_endDate :: timestamp
  l_reason :: string
  l_type :: string
  l_status :: string
  l_document :: string
  l_createdBy :: objectId
  l_updatedBy :: "objectId option"
  l_createdAt :: timestamp
  l_updatedAt :: "timestamp option"

record db =
  employees :: "employee list"
  attendances :: "attendance list"
  leaves :: "leave list"
  nextId :: objectId

text \<open>A failed request: the HTTP status and the message of the response.\<close>

datatype error = HttpError nat string

definition serverError :: error where
  "serverError = HttpError 500 ''Server error''"

text \<open>\<open>Employee.findById\<close> and \<open>Leave.findById\<close>; also what \<open>populate('employee')\<close> puts in
  place of the reference: the employee, or null when there is none.\<close>

definition findEmployee :: "db \<Rightarrow> objectId \<Rightarrow> employee option" where
  "findEmployee d i = find (\<lambda>e. e_id e = i) (employees d)"

definition findLeave :: "db \<Rightarrow> objectId \<Rightarrow> leave option" where
  "findLeave d i = find (\<lambda>l. l_id l = i) (leaves d)"

text \<open>
  Saving a new attendance document: the schema's \<open>enum\<close> validator on the status, then the
  unique index on (employee, date). Either failure is an exception of \<open>save()\<close>.
\<close>

definition attendanceStatuses :: "string list" where
  "attendanceStatuses = [''present'', ''absent'', ''half-day'', ''leave'']"

definition saveNewAttendance :: "attendance \<Rightarrow> db \<Rightarrow> db option" where
  "saveNewAttendance a d =
     (if a_status a \<notin> set attendanceStatuses then None
      else if list_ex (\<lambda>x. a_employee x = a_employee a \<and> a_date x = a_date a) (attendances d)
      then None
      else Some (d\<lparr>attendances := attendances d @ [a], nextId := Suc (nextId d)\<rparr>))"

section \<open>Manual attendance entry: \<open>POST /attendance\<close>\<close>

definition postAttendance ::
  "timestamp \<Rightarrow> objectId \<Rightarrow> objectId \<Rightarrow> timestamp \<Rightarrow> string \<Rightarrow> db \<Rightarrow> (error + attendance) \<times> db"
where
  "postAttendance now user emp date status d =
     (case findEmployee d emp of
        None \<Rightarrow> (Inl (HttpError 404 ''Employee not found''), d)
      | Some e \<Rightarrow>
          if e_status e \<noteq> ''active''
          then (Inl (HttpError 400 ''Only active employees can have attendance records''), d)
          else (case find (\<lambda>x. a_employee x = emp \<and> a_date x = date) (attendances d) of
                  Some _ \<Rightarrow>
                    (Inl (HttpError 400
                       ''Attendance record already exists for this employee on this date''), d)
                | None \<Rightarrow>
                    (let newAttendance = \<lparr>a_id = nextId d, a_employee = emp, a_date = date,
                           a_status = status, a_createdBy = user, a_createdAt = now\<rparr>
                     in case saveNewAttendance newAttendance d of
                          None \<Rightarrow> (Inl serverError, d)
                        | Some d' \<Rightarrow> (Inr newAttendance, d'))))"

section \<open>The sync of an approved leave into attendance\<close>

text \<open>
  Writing back the document that \<open>findOne\<close> or \<open>findById\<close> returned: the first document of
  the collection that matches the filter is replaced by its update.
\<close>

fun updateFirst :: "('a \<Rightarrow> bool) \<Rightarrow> ('a \<Rightarrow> 'a) \<Rightarrow> 'a list \<Rightarrow> 'a list" where
  "updateFirst p f [] = []"
| "updateFirst p f (x # xs) = (if p x then f x # xs else x # updateFirst p f xs)"

text \<open>
  One turn of the loop over \<open>dateRange\<close>. The two \<open>setHours\<close> calls inside the filter change
  \<open>date\<close> itself, so the document created afterwards carries the last millisecond of the
  day. \<open>leave.employee\<close> is the populated employee; when it is null the filter finds nothing
  and the new document fails the schema's \<open>required\<close> validator.
\<close>

definition onDay :: "int \<Rightarrow> objectId \<Rightarrow> timestamp \<Rightarrow> attendance \<Rightarrow> bool" where
  "onDay tz emp date a =
     (a_employee a = emp \<and> setHoursStart tz date \<le> a_date a
      \<and> a_date a \<le> setHoursEnd tz (setHoursStart tz date))"

definition syncDay ::
  "int \<Rightarrow> timestamp \<Rightarrow> objectId \<Rightarrow> employee option \<Rightarrow> timestamp \<Rightarrow> db \<Rightarrow> db option"
where
  "syncDay tz now user leaveEmployee date d =
     (case leaveEmployee of
        None \<Rightarrow> None
      | Some e \<Rightarrow>
          (case find (onDay tz (e_id e) date) (attendances d) of
             Some _ \<Rightarrow>
               Some (d\<lparr>attendances :=
                        updateFirst (onDay tz (e_id e) date) (\<lambda>a. a\<lparr>a_status := ''leave''\<rparr>)
                          (attendances d)\<rparr>)
           | None \<Rightarrow>
               saveNewAttendance
                 \<lparr>a_id = nextId d, a_employee = e_id e,
                  a_date = setHoursEnd tz (setHoursStart tz date),
                  a_status = ''leave'', a_createdBy = user, a_createdAt = now\<rparr> d))"

text \<open>The loop: an exception ends it and keeps what the earlier turns wrote.\<close>

fun syncDays ::
  "int \<Rightarrow> timestamp \<Rightarrow> objectId \<Rightarrow> employee option \<Rightarrow> timestamp list \<Rightarrow> db \<Rightarrow> error option \<times> db"
where
  "syncDays tz now user leaveEmployee [] d = (None, d)"
| "syncDays tz now user leaveEmployee (date # dates) d =
     (case syncDay tz now user leaveEmployee date d of
        None \<Rightarrow> (Some serverError, d)
      | Some d' \<Rightarrow> syncDays tz now user leaveEmployee dates d')"

text \<open>The block under \<open>if (status === 'approved')\<close> of \<open>PUT /leaves/:id\<close>.\<close>

definition syncAttendance ::
  "int \<Rightarrow> timestamp \<Rightarrow> objectId \<Rightarrow> leave \<Rightarrow> db \<Rightarrow> error option \<times> db"
where
  "syncAttendance tz now user l d =
     syncDays tz now user (findEmployee d (l_employee l))
       (dateRange (setHoursStart tz (l_startDate l)) (setHoursEnd tz (l_endDate l))) d"

section \<open>Updating a leave: \<open>PUT /leaves/:id\<close>\<close>

text \<open>
  \<open>leaveFields\<close>: the status when the body has a non-empty one, the document when a file
  was uploaded, and who updated the leave and when. \<open>findByIdAndUpdate\<close> runs no
  validator, so any status string is stored.
\<close>

definition leaveFields :: "timestamp \<Rightarrow> objectId \<Rightarrow> string option \<Rightarrow> string option \<Rightarrow> leave \<Rightarrow> leave" where
  "leaveFields now user status file l =
     (let l1 = (case status of None \<Rightarrow> l | Some s \<Rightarrow> if s = [] then l else l\<lparr>l_status := s\<rparr>);
          l2 = (case file of None \<Rightarrow> l1
                | Some f \<Rightarrow> l1\<lparr>l_document := ''/uploads/documents/'' @ f\<rparr>)
      in l2\<lparr>l_updatedBy := Some user, l_updatedAt := Some now\<rparr>)"

definition putLeave ::
  "int \<Rightarrow> timestamp \<Rightarrow> objectId \<Rightarrow> objectId \<Rightarrow> string option \<Rightarrow> string option \<Rightarrow> db
     \<Rightarrow> (error + leave) \<times> db"
where
  "putLeave tz now user i status file d =
     (case findLeave d i of
        None \<Rightarrow> (Inl (HttpError 404 ''Leave not found''), d)
      | Some l0 \<Rightarrow>
          (let l = leaveFields now user status file l0;
               d1 = d\<lparr>leaves := updateFirst (\<lambda>x. l_id x = i) (leaveFields now user status file)
                                  (leaves d)\<rparr>
           in if status = Some ''approved''
              then (case syncAttendance tz now user l d1 of
                      (Some e, d2) \<Rightarrow> (Inl e, d2)
                    | (None, d2) \<Rightarrow> (Inr l, d2))
              else (Inr l, d1)))"

section \<open>Creating a leave: \<open>POST /leaves\<close>\<close>

definition leaveTypes :: "string list" where
  "leaveTypes = [''sick'', ''casual'', ''annual'', ''other'']"

text \<open>The responses of the route that the specification names.\<close>

definition EmployeeInactive :: error where
  "EmployeeInactive = HttpError 400 ''Only active employees can apply for leave''"

definition NoAttendanceHistory :: error where
  "NoAttendanceHistory =
     HttpError 400 ''Only employees with attendance records can apply for leave''"

definition OverlappingLeave :: error where
  "OverlappingLeave = HttpError 400 ''Leave application overlaps with existing leave''"

text \<open>
  The route builds the document without a status, so the schema's default \<open>'pending'\<close>
  applies; \<open>save()\<close> throws when the reason is missing or the type is not one of the enum.
\<close>

definition postLeave ::
  "timestamp \<Rightarrow> objectId \<Rightarrow> objectId \<Rightarrow> timestamp \<Rightarrow> timestamp \<Rightarrow> string \<Rightarrow> string
     \<Rightarrow> string option \<Rightarrow> db \<Rightarrow> (error + leave) \<times> db"
where
  "postLeave now user emp startDate endDate reason type file d =
     (case findEmployee d emp of
        None \<Rightarrow> (Inl (HttpError 404 ''Employee not found''), d)
      | Some e \<Rightarrow>
          if e_status e \<noteq> ''active'' then (Inl EmployeeInactive, d)
          else (case find (\<lambda>a. a_employee a = emp \<and> a_status a = ''present'') (attendances d) of
                  None \<Rightarrow> (Inl NoAttendanceHistory, d)
                | Some _ \<Rightarrow>
                    (case find (\<lambda>l. l_employee l = emp
                                  \<and> overlapQuery (l_startDate l) (l_endDate l) startDate endDate)
                            (leaves d) of
                       Some _ \<Rightarrow> (Inl OverlappingLeave, d)
                     | None \<Rightarrow>
                         (let newLeave = \<lparr>l_id = nextId d, l_employee = emp,
                                l_startDate = startDate, l_endDate = endDate,
                                l_reason = reason, l_type = type, l_status = ''pending'',
                                l_document = (case file of None \<Rightarrow> []
                                              | Some f \<Rightarrow> ''/uploads/documents/'' @ f),
                                l_createdBy = user, l_updatedBy = None,
                                l_createdAt = now, l_updatedAt = None\<rparr>
                          in if reason = [] \<or> type \<notin> set leaveTypes
                             then (Inl serverError, d)
                             else (Inr newLeave,
                                   d\<lparr>leaves := leaves d @ [newLeave],
                                     nextId := Suc (nextId d)\<rparr>)))))"

section \<open>The attendance report: \<open>GET /attendance/report\<close>\<close>

record reportEntry =
  r_id :: objectId
  r_name :: string
  r_position :: string
  r_department :: string
  r_present :: nat
  r_absent :: nat
  r_halfDay :: nat
  r_leave :: nat
  r_total :: nat

text \<open>
  \<open>attendanceRecords.filter(record => record.employee._id.toString() === employee._id.toString())\<close>
  over the populated records: reading \<open>_id\<close> of a null employee throws.
\<close>

fun employeeAttendance ::
  "objectId \<Rightarrow> (attendance \<times> employee option) list \<Rightarrow> attendance list option"
where
  "employeeAttendance i [] = Some []"
| "employeeAttendance i ((a, None) # rs) = None"
| "employeeAttendance i ((a, Some p) # rs) =
     (case employeeAttendance i rs of
        None \<Rightarrow> None
      | Some as \<Rightarrow> Some (if e_id p = i then a # as else as))"

definition countStatus :: "string \<Rightarrow> attendance list \<Rightarrow> nat" where
  "countStatus s as = length (filter (\<lambda>record. a_status record = s) as)"

definition reportFor :: "employee \<Rightarrow> attendance list \<Rightarrow> reportEntry" where
  "reportFor e as =
     (let present = countStatus ''present'' as;
          absent = countStatus ''absent'' as;
          halfDay = countStatus ''half-day'' as;
          leave = countStatus ''leave'' as
      in \<lparr>r_id = e_id e, r_name = e_name e, r_position = e_position e,
          r_department = e_department e,
          r_present = present, r_absent = absent, r_halfDay = halfDay, r_leave = leave,
          r_total = present + absent + halfDay + leave\<rparr>)"

text \<open>A query parameter is \<open>None\<close> when the request has none (or an empty one).\<close>

definition attendanceReport ::
  "int \<Rightarrow> timestamp option \<Rightarrow> timestamp option \<Rightarrow> db \<Rightarrow> error + reportEntry list"
where
  "attendanceReport tz startDate endDate d =
     (case (startDate, endDate) of
        (Some s, Some e) \<Rightarrow>
          (let start = setHoursStart tz s;
               endD = setHoursEnd tz e;
               actives = filter (\<lambda>x. e_status x = ''active'') (employees d);
               attendanceRecords =
                 map (\<lambda>a. (a, findEmployee d (a_employee a)))
                   (filter (\<lambda>a. start \<le> a_date a \<and> a_date a \<le> endD) (attendances d))
           in case those (map (\<lambda>x. map_option (reportFor x)
                                      (employeeAttendance (e_id x) attendanceRecords))
                            actives) of
                None \<Rightarrow> Inl serverError
              | Some report \<Rightarrow> Inr report)
      | _ \<Rightarrow> Inl (HttpError 400 ''Start date and end date are required''))"

section \<open>The leave calendar: \<open>GET /leaves/calendar\<close>\<close>

record calendarEntry =
  c_date :: "int \<times> int \<times> int"
  c_employee :: string
  c_type :: string

text \<open>
  The entries of one leave, from \<open>start\<close> to \<open>end\<close>; \<open>leave.employee.name\<close> is read in every
  turn of the loop and throws on a null employee.
\<close>

definition calendarRange ::
  "employee option \<Rightarrow> leave \<Rightarrow> timestamp \<Rightarrow> timestamp \<Rightarrow> calendarEntry list option"
where
  "calendarRange leaveEmployee l start endD =
     (case dateRange start endD of
        [] \<Rightarrow> Some []
      | t # ts \<Rightarrow>
          (case leaveEmployee of
             None \<Rightarrow> None
           | Some e \<Rightarrow>
               Some (map (\<lambda>currentDate. \<lparr>c_date = isoDate currentDate,
                                          c_employee = e_name e, c_type = l_type l\<rparr>)
                       (t # ts))))"

definition leaveCalendar ::
  "int \<Rightarrow> int option \<Rightarrow> int option \<Rightarrow> db \<Rightarrow> error + calendarEntry list"
where
  "leaveCalendar tz month year d =
     (case (month, year) of
        (Some m, Some y) \<Rightarrow>
          (let startDate = newDate tz y (m - 1) 1;
               endDate = newDate tz y m 0;
               ls = filter (\<lambda>l. l_status l = ''approved''
                                \<and> overlapQuery (l_startDate l) (l_endDate l) startDate endDate)
                      (leaves d)
           in case those (map (\<lambda>l. calendarRange (findEmployee d (l_employee l)) l
                                      (max (l_startDate l) startDate)
                                      (min (l_endDate l) endDate))
                            ls) of
                None \<Rightarrow> Inl serverError
              | Some calendarLeaves \<Rightarrow> Inr (concat calendarLeaves))
      | _ \<Rightarrow> Inl (HttpError 400 ''Month and year are required''))"

section \<open>The auth middleware and the routes of the leaves router\<close>

text \<open>
  \<open>verify\<close> stands for \<open>jwt.verify(token, process.env.JWT_SECRET)\<close>: the user id and the
  expiry (in seconds) of the decoded token, or \<open>None\<close> when it throws.
\<close>

definition auth ::
  "(string \<Rightarrow> (objectId \<times> int option) option) \<Rightarrow> timestamp \<Rightarrow> string option \<Rightarrow> error + objectId"
where
  "auth verify now token =
     (case token of
        None \<Rightarrow> Inl (HttpError 401 ''No token, authorization denied'')
      | Some t \<Rightarrow>
          if t = [] then Inl (HttpError 401 ''No token, authorization denied'')
          else (case verify t of
                  None \<Rightarrow> Inl (HttpError 401 ''Token is not valid'')
                | Some (user, None) \<Rightarrow> Inr user
                | Some (user, Some exp) \<Rightarrow>
                    if exp * 1000 < now
                    then Inl (HttpError 401 ''Token expired, please login again'')
                    else Inr user))"

text \<open>
  Mongoose casts a string to an \<open>ObjectId\<close> when it has 24 hexadecimal digits or 12 bytes,
  and throws a \<open>CastError\<close> of kind \<open>ObjectId\<close> otherwise.
\<close>

definition hexDigit :: "char \<Rightarrow> nat option" where
  "hexDigit c =
     (let n = (of_char c :: nat)
      in if 48 \<le> n \<and> n \<le> 57 then Some (n - 48)
         else if 97 \<le> n \<and> n \<le> 102 then Some (n - 87)
         else if 65 \<le> n \<and> n \<le> 70 then Some (n - 55)
         else None)"

definition castObjectId :: "string \<Rightarrow> objectId option" where
  "castObjectId s =
     (if length s = 24
      then map_option (foldl (\<lambda>acc h. acc * 16 + h) 0) (those (map hexDigit s))
      else if length s = 12 then Some (foldl (\<lambda>acc c. acc * 256 + of_char c) 0 s)
      else None)"

text \<open>
  The handler of \<open>GET /leaves/:id\<close>; its \<open>catch\<close> answers a \<open>CastError\<close> of kind \<open>ObjectId\<close>
  with the same 404. \<open>getLeaveRoute\<close> is the route as registered: \<open>auth\<close>, then the handler.
\<close>

definition getLeave :: "string \<Rightarrow> db \<Rightarrow> error + leave" where
  "getLeave idParam d =
     (case castObjectId idParam of
        None \<Rightarrow> Inl (HttpError 404 ''Leave not found'')
      | Some i \<Rightarrow>
          (case findLeave d i of
             None \<Rightarrow> Inl (HttpError 404 ''Leave not found'')
           | Some l \<Rightarrow> Inr l))"

definition getLeaveRoute ::
  "(string \<Rightarrow> (objectId \<times> int option) option) \<Rightarrow> timestamp \<Rightarrow> string option \<Rightarrow> string \<Rightarrow> db
     \<Rightarrow> error + leave"
where
  "getLeaveRoute verify now token idParam d =
     (case auth verify now token of
        Inl e \<Rightarrow> Inl e
      | Inr user \<Rightarrow> getLeave idParam d)"

text \<open>
  The routes of the leaves router in the order of their registration. Express offers a
  request to the routes in that order and the first one whose method and path match
  handles it; none of these handlers passes the request on. A path is the list of its
  segments; \<open>:name\<close> matches any one non-empty segment.
\<close>

datatype verb = GET | POST | PUT | DELETE

datatype segment = Lit string | Param string

datatype leaveRoute =
  ListLeaves | CreateLeave | GetLeave | UpdateLeave | DeleteLeave | LeaveDocument | LeaveCalendar

definition leaveRoutes :: "(verb \<times> segment list \<times> leaveRoute) list" where
  "leaveRoutes =
     [(GET, [], ListLeaves),
      (POST, [], CreateLeave),
      (GET, [Param ''id''], GetLeave),
      (PUT, [Param ''id''], UpdateLeave),
      (DELETE, [Param ''id''], DeleteLeave),
      (GET, [Param ''id'', Lit ''document''], LeaveDocument),
      (GET, [Lit ''calendar''], LeaveCalendar)]"

text \<open>Express compares a literal segment without regard to letter case.\<close>

definition lowerChar :: "char \<Rightarrow> char" where
  "lowerChar c =
     (let n = (of_char c :: nat) in if 65 \<le> n \<and> n \<le> 90 then char_of (n + 32) else c)"

fun matchPath :: "segment list \<Rightarrow> string list \<Rightarrow> (string \<times> string) list option" where
  "matchPath [] [] = Some []"
| "matchPath (Lit s # ps) (x # xs) =
     (if map lowerChar x = map lowerChar s then matchPath ps xs else None)"
| "matchPath (Param n # ps) (x # xs) =
     (if x = [] then None else map_option (Cons (n, x)) (matchPath ps xs))"
| "matchPath _ _ = None"

fun dispatchIn ::
  "(verb \<times> segment list \<times> leaveRoute) list \<Rightarrow> verb \<Rightarrow> string list
     \<Rightarrow> (leaveRoute \<times> (string \<times> string) list) option"
where
  "dispatchIn [] m path = None"
| "dispatchIn ((m', pattern, r) # rs) m path =
     (if m' = m
      then (case matchPath pattern path of
              Some params \<Rightarrow> Some (r, params)
            | None \<Rightarrow> dispatchIn rs m path)
      else dispatchIn rs m path)"

definition dispatch :: "verb \<Rightarrow> string list \<Rightarrow> (leaveRoute \<times> (string \<times> string) list) option" where
  "dispatch m path = dispatchIn leaveRoutes m path"

section \<open>Deleting an employee: \<open>DELETE /employees/:id\<close>\<close>

text \<open>
  \<open>employee.remove()\<close> on the document that \<open>findById\<close> returned: the first document of
  the collection that matches is taken out. The employee schema has no hook, so the
  attendance records and the leaves of the employee stay.
\<close>

fun removeFirst :: "('a \<Rightarrow> bool) \<Rightarrow> 'a list \<Rightarrow> 'a list" where
  "removeFirst p [] = []"
| "removeFirst p (x # xs) = (if p x then xs else x # removeFirst p xs)"

definition deleteEmployee :: "objectId \<Rightarrow> db \<Rightarrow> (error + string) \<times> db" where
  "deleteEmployee i d =
     (case findEmployee d i of
        None \<Rightarrow> (Inl (HttpError 404 ''Employee not found''), d)
      | Some _ \<Rightarrow>
          (Inr ''Employee removed'',
           d\<lparr>employees := removeFirst (\<lambda>e. e_id e = i) (employees d)\<rparr>))"

section \<open>A scenario\<close>

text \<open>
  \<open>new Date('yyyy-mm-dd')\<close>: a date without a time is midnight UTC of that day.
\<close>

definition parseDate :: "int \<Rightarrow> int \<Rightarrow> int \<Rightarrow> timestamp" where
  "parseDate y m d = daysFromCivil y m d * msPerDay"

text \<open>
  Employee 1 is active and was present on 2024-01-05; leave 3 is the employee's pending
  request for 2024-01-10 to 2024-01-12. User 9 made both.
\<close>

definition employee1 :: employee where
  "employee1 = \<lparr>e_id = 1, e_name = ''Asha'', e_position = ''Engineer'',
                 e_department = ''Platform'', e_status = ''active''\<rparr>"

definition present0105 :: attendance where
  "present0105 = \<lparr>a_id = 2, a_employee = 1, a_date = parseDate 2024 1 5,
                   a_status = ''present'', a_createdBy = 9, a_createdAt = parseDate 2024 1 5\<rparr>"

definition leave3 :: leave where
  "leave3 = \<lparr>l_id = 3, l_employee = 1, l_startDate = parseDate 2024 1 10,
              l_endDate = parseDate 2024 1 12, l_reason = ''family'', l_type = ''casual'',
              l_status = ''pending'', l_document = [], l_createdBy = 9, l_updatedBy = None,
              l_createdAt = parseDate 2024 1 6, l_updatedAt = None\<rparr>"

definition scenario :: db where
  "scenario = \<lparr>employees = [employee1], attendances = [present0105], leaves = [leave3],
                nextId = 4\<rparr>"

text \<open>The same with leave 3 rejected, and with the employee inactive and never present.\<close>

definition scenarioRejected :: db where
  "scenarioRejected = scenario\<lparr>leaves := [leave3\<lparr>l_status := ''rejected''\<rparr>]\<rparr>"

definition scenarioInactive :: db where
  "scenarioInactive =
     scenario\<lparr>employees := [employee1\<lparr>e_status := ''inactive''\<rparr>], attendances := []\<rparr>"

text \<open>
  For the calendar: the pending leave 3, an approved leave from 2024-01-30 to 2024-02-02
  and a rejected one in January.
\<close>

definition calendarScenario :: db where
  "calendarScenario =
     scenario\<lparr>leaves := [leave3,
                         leave3\<lparr>l_id := 4, l_startDate := parseDate 2024 1 30,
                                l_endDate := parseDate 2024 2 2, l_type := ''annual'',
                                l_status := ''approved''\<rparr>,
                         leave3\<lparr>l_id := 5, l_startDate := parseDate 2024 1 20,
                                l_endDate := parseDate 2024 1 21, l_type := ''sick'',
                                l_status := ''rejected''\<rparr>],
               nextId := 6\<rparr>"

text \<open>
  For the report: a second active employee beside employee 1. For the calendar again:
  the scenario after employee 1 asked for leave from 2024-01-31 09:00 UTC to 2024-02-02
  and the request was approved.
\<close>

definition employee8 :: employee where
  "employee8 = \<lparr>e_id = 8, e_name = ''Ravi'', e_position = ''Analyst'',
                 e_department = ''Finance'', e_status = ''active''\<rparr>"

definition twoEmployees :: db where
  "twoEmployees = scenario\<lparr>employees := [employee1, employee8]\<rparr>"


text \<open>A token verification that accepts one token, of user 9.\<close>

definition verifyExample :: "string \<Rightarrow> (objectId \<times> int option) option" where
  "verifyExample t = (if t = ''token-of-9'' then Some (9, Some 2000000000) else None)"

section \<open>Notions of the specification\<close>

text \<open>
  The number of attendance records of an employee with a given status whose day lies
  between the day of \<open>startDate\<close> and the day of \<open>endDate\<close>.
\<close>

definition recordCount :: "int \<Rightarrow> timestamp \<Rightarrow> timestamp \<Rightarrow> db \<Rightarrow> objectId \<Rightarrow> string \<Rightarrow> nat" where
  "recordCount tz startDate endDate d emp s =
     length (filter (\<lambda>a. a_employee a = emp
                        \<and> localDay tz startDate \<le> localDay tz (a_date a)
                        \<and> localDay tz (a_date a) \<le> localDay tz endDate
                        \<and> a_status a = s)
               (attendances d))"

text \<open>The name of an employee, and the first and the last day of a month as day numbers.\<close>

definition employeeName :: "db \<Rightarrow> objectId \<Rightarrow> string" where
  "employeeName d i = (case findEmployee d i of None \<Rightarrow> [] | Some e \<Rightarrow> e_name e)"

definition firstDayOfMonth :: "int \<Rightarrow> int \<Rightarrow> int" where
  "firstDayOfMonth year month = localDay 0 (newDate 0 year (month - 1) 1)"

definition lastDayOfMonth :: "int \<Rightarrow> int \<Rightarrow> int" where
  "lastDayOfMonth year month = localDay 0 (newDate 0 year month 0)"

section \<open>Auxiliary notions of the proofs\<close>

text \<open>\<open>findOne\<close> for the employee and the day of \<open>date\<close> returns a document with status
  \<open>'leave'\<close>.\<close>

definition leaveMarked :: "int \<Rightarrow> objectId \<Rightarrow> timestamp \<Rightarrow> attendance list \<Rightarrow> bool" where
  "leaveMarked tz emp date as =
     (case find (onDay tz emp date) as of None \<Rightarrow> False | Some a \<Rightarrow> a_status a = ''leave'')"

section \<open>Facts about days\<close>

lemma msPerDay_pos: "0 < msPerDay"
  by (simp add: msPerDay_def)

lemma mult_le_iff_le_div:
  fixes D :: int
  assumes "0 < D"
  shows "(k * D \<le> y) = (k \<le> y div D)"
proof
  assume "k * D \<le> y"
  then have "(k * D) div D \<le> y div D" using assms by (rule zdiv_mono1)
  then show "k \<le> y div D" using assms by simp
next
  assume "k \<le> y div D"
  then have "k * D \<le> (y div D) * D" using assms by (simp add: mult_right_mono)
  also have "\<dots> \<le> y" using assms
    by (metis add.commute add_le_cancel_left div_mult_mod_eq le_add_same_cancel1 pos_mod_sign)
  finally show "k * D \<le> y" .
qed

lemma less_mult_iff_div_less:
  fixes D :: int
  assumes "0 < D"
  shows "(y < k * D) = (y div D < k)"
  using mult_le_iff_le_div [OF assms, of k y] by auto

lemma setHoursStart_localDay: "setHoursStart tz t = localDay tz t * msPerDay - tz"
  unfolding setHoursStart_def localDay_def
  by (simp add: minus_mod_eq_div_mult [symmetric] algebra_simps)

lemma localDay_setHoursStart: "localDay tz (setHoursStart tz t) = localDay tz t"
  unfolding setHoursStart_localDay by (simp add: localDay_def msPerDay_def)

lemma setHoursStart_le_iff: "setHoursStart tz t \<le> x \<longleftrightarrow> localDay tz t \<le> localDay tz x"
proof -
  have "setHoursStart tz t \<le> x \<longleftrightarrow> localDay tz t * msPerDay \<le> x + tz"
    by (simp add: setHoursStart_localDay algebra_simps)
  also have "\<dots> \<longleftrightarrow> localDay tz t \<le> (x + tz) div msPerDay"
    by (rule mult_le_iff_le_div [OF msPerDay_pos])
  finally show ?thesis by (simp add: localDay_def)
qed

lemma le_setHoursEnd_iff: "x \<le> setHoursEnd tz t \<longleftrightarrow> localDay tz x \<le> localDay tz t"
proof -
  have "x \<le> setHoursEnd tz t \<longleftrightarrow> x + tz < (localDay tz t + 1) * msPerDay"
    unfolding setHoursEnd_def setHoursStart_localDay by (simp add: algebra_simps) linarith
  also have "\<dots> \<longleftrightarrow> (x + tz) div msPerDay < localDay tz t + 1"
    by (rule less_mult_iff_div_less [OF msPerDay_pos])
  finally show ?thesis by (simp add: localDay_def)
qed

section \<open>Facts about the sync\<close>

lemma onDay_localDay:
  "onDay tz emp date a \<longleftrightarrow> a_employee a = emp \<and> localDay tz (a_date a) = localDay tz date"
  unfolding onDay_def setHoursStart_le_iff le_setHoursEnd_iff localDay_setHoursStart
  by auto

lemma onDay_status [simp]: "onDay tz emp date (a\<lparr>a_status := s\<rparr>) = onDay tz emp date a"
  by (simp add: onDay_def)

lemma find_append_Some: "find p xs = Some a \<Longrightarrow> find p (xs @ ys) = Some a"
  by (induction xs) (auto split: if_splits)

lemma find_append_None: "find p xs = None \<Longrightarrow> find p (xs @ ys) = find p ys"
  by (induction xs) (auto split: if_splits)

lemma updateFirst_same:
  "find p xs = Some a \<Longrightarrow> f a = a \<Longrightarrow> updateFirst p f xs = xs"
  by (induction xs) (auto split: if_splits)

lemma leaveMarked_updateFirst_self:
  "find (onDay tz emp date) as = Some a \<Longrightarrow>
   leaveMarked tz emp date (updateFirst (onDay tz emp date) (\<lambda>a. a\<lparr>a_status := ''leave''\<rparr>) as)"
  by (induction as) (auto simp: leaveMarked_def split: if_splits)

lemma leaveMarked_updateFirst_other:
  "leaveMarked tz emp date as \<Longrightarrow>
   leaveMarked tz emp date (updateFirst (onDay tz emp' date') (\<lambda>a. a\<lparr>a_status := ''leave''\<rparr>) as)"
  by (induction as) (auto simp: leaveMarked_def split: if_splits option.splits)

lemma leaveMarked_append:
  "leaveMarked tz emp date as \<Longrightarrow> leaveMarked tz emp date (as @ bs)"
  by (auto simp: leaveMarked_def find_append_Some split: option.splits)

lemma localDay_setHoursEnd: "localDay tz (setHoursEnd tz t) = localDay tz t"
proof (rule antisym)
  show "localDay tz (setHoursEnd tz t) \<le> localDay tz t"
    using le_setHoursEnd_iff [of "setHoursEnd tz t" tz t] by simp
  have "setHoursStart tz t \<le> setHoursEnd tz t"
    using msPerDay_pos by (simp add: setHoursEnd_def)
  then show "localDay tz t \<le> localDay tz (setHoursEnd tz t)"
    by (simp add: setHoursStart_le_iff)
qed

lemma onDay_new:
  "onDay tz emp date \<lparr>a_id = i, a_employee = emp,
      a_date = setHoursEnd tz (setHoursStart tz date), a_status = s,
      a_createdBy = u, a_createdAt = n\<rparr>"
  by (simp add: onDay_localDay localDay_setHoursEnd localDay_setHoursStart)

lemma syncDay_new:
  assumes "find (onDay tz (e_id e) date) (attendances d) = None"
  shows "syncDay tz now user (Some e) date d =
           Some (d\<lparr>attendances := attendances d @
                    [\<lparr>a_id = nextId d, a_employee = e_id e,
                      a_date = setHoursEnd tz (setHoursStart tz date),
                      a_status = ''leave'', a_createdBy = user, a_createdAt = now\<rparr>],
                  nextId := Suc (nextId d)\<rparr>)"
proof -
  have "\<not> onDay tz (e_id e) date x" if "x \<in> set (attendances d)" for x
    using assms that by (auto simp: find_None_iff)
  moreover have "onDay tz (e_id e) date x"
    if "a_employee x = e_id e" "a_date x = setHoursEnd tz (setHoursStart tz date)" for x
    using that by (simp add: onDay_localDay localDay_setHoursEnd localDay_setHoursStart)
  ultimately have "\<not> list_ex (\<lambda>x. a_employee x = e_id e
                \<and> a_date x = setHoursEnd tz (setHoursStart tz date)) (attendances d)"
    unfolding list_ex_iff by blast
  then show ?thesis
    using assms by (simp add: syncDay_def saveNewAttendance_def attendanceStatuses_def)
qed

lemma syncDay_total:
  "\<exists>d'. syncDay tz now user (Some e) date d = Some d'
        \<and> employees d' = employees d \<and> leaves d' = leaves d
        \<and> leaveMarked tz (e_id e) date (attendances d')
        \<and> (\<forall>x. leaveMarked tz (e_id e) x (attendances d)
               \<longrightarrow> leaveMarked tz (e_id e) x (attendances d'))"
proof (cases "find (onDay tz (e_id e) date) (attendances d)")
  case None
  have "leaveMarked tz (e_id e) date (attendances d @
          [\<lparr>a_id = nextId d, a_employee = e_id e,
            a_date = setHoursEnd tz (setHoursStart tz date),
            a_status = ''leave'', a_createdBy = user, a_createdAt = now\<rparr>])"
    using None by (simp add: leaveMarked_def find_append_None onDay_new)
  then show ?thesis
    using syncDay_new [OF None] by (simp add: leaveMarked_append)
next
  case (Some a)
  then show ?thesis
    by (simp add: syncDay_def leaveMarked_updateFirst_self leaveMarked_updateFirst_other)
qed

lemma syncDay_marked:
  assumes "leaveMarked tz (e_id e) date (attendances d)"
  shows "syncDay tz now user (Some e) date d = Some d"
proof -
  from assms obtain a where a: "find (onDay tz (e_id e) date) (attendances d) = Some a"
    and "a_status a = ''leave''"
    by (auto simp: leaveMarked_def split: option.splits)
  then have "a\<lparr>a_status := ''leave''\<rparr> = a" by simp
  with a have "updateFirst (onDay tz (e_id e) date) (\<lambda>a. a\<lparr>a_status := ''leave''\<rparr>)
                 (attendances d) = attendances d"
    by (rule updateFirst_same)
  with a show ?thesis by (simp add: syncDay_def)
qed

lemma syncDays_total:
  "\<exists>d'. syncDays tz now user (Some e) dates d = (None, d')
        \<and> employees d' = employees d \<and> leaves d' = leaves d
        \<and> (\<forall>x \<in> set dates. leaveMarked tz (e_id e) x (attendances d'))
        \<and> (\<forall>x. leaveMarked tz (e_id e) x (attendances d)
               \<longrightarrow> leaveMarked tz (e_id e) x (attendances d'))"
proof (induction dates arbitrary: d)
  case Nil
  show ?case by simp
next
  case (Cons date dates)
  obtain d1 where d1: "syncDay tz now user (Some e) date d = Some d1"
    "employees d1 = employees d" "leaves d1 = leaves d"
    "leaveMarked tz (e_id e) date (attendances d1)"
    "\<forall>x. leaveMarked tz (e_id e) x (attendances d) \<longrightarrow> leaveMarked tz (e_id e) x (attendances d1)"
    using syncDay_total [of tz now user e date d] by blast
  obtain d2 where d2: "syncDays tz now user (Some e) dates d1 = (None, d2)"
    "employees d2 = employees d1" "leaves d2 = leaves d1"
    "\<forall>x \<in> set dates. leaveMarked tz (e_id e) x (attendances d2)"
    "\<forall>x. leaveMarked tz (e_id e) x (attendances d1) \<longrightarrow> leaveMarked tz (e_id e) x (attendances d2)"
    using Cons.IH [of d1] by blast
  show ?case using d1 d2 by auto
qed

lemma syncDays_marked:
  "\<forall>x \<in> set dates. leaveMarked tz (e_id e) x (attendances d) \<Longrightarrow>
   syncDays tz now user (Some e) dates d = (None, d)"
  by (induction dates) (simp_all add: syncDay_marked)

lemma syncDays_null:
  "syncDays tz now user None dates d = (if dates = [] then None else Some serverError, d)"
  by (cases dates) (simp_all add: syncDay_def)

lemma syncDays_twice:
  "syncDays tz now' user' emp dates (snd (syncDays tz now user emp dates d))
     = syncDays tz now user emp dates d"
proof (cases emp)
  case None
  then show ?thesis by (simp add: syncDays_null)
next
  case (Some e)
  obtain d' where d': "syncDays tz now user (Some e) dates d = (None, d')"
    "\<forall>x \<in> set dates. leaveMarked tz (e_id e) x (attendances d')"
    using syncDays_total [of tz now user e dates d] by blast
  then show ?thesis using Some by (simp add: syncDays_marked)
qed

lemma syncDays_employees: "employees (snd (syncDays tz now user emp dates d)) = employees d"
proof (cases emp)
  case None
  then show ?thesis by (simp add: syncDays_null)
next
  case (Some e)
  then show ?thesis using syncDays_total [of tz now user e dates d] by auto
qed

lemma syncAttendance_twice:
  "syncAttendance tz now' user' l (snd (syncAttendance tz now user l d))
     = syncAttendance tz now user l d"
  by (simp add: syncAttendance_def findEmployee_def syncDays_employees syncDays_twice)


section \<open>Facts about the update of a leave\<close>

lemma syncDay_leaves_frame:
  "syncDay tz now user emp date (d\<lparr>leaves := ls\<rparr>)
     = map_option (\<lambda>x. x\<lparr>leaves := ls\<rparr>) (syncDay tz now user emp date d)"
  by (simp add: syncDay_def saveNewAttendance_def split: option.splits)

lemma syncDays_leaves_frame:
  "syncDays tz now user emp dates (d\<lparr>leaves := ls\<rparr>)
     = (fst (syncDays tz now user emp dates d),
        (snd (syncDays tz now user emp dates d))\<lparr>leaves := ls\<rparr>)"
  by (induction dates arbitrary: d) (auto simp: syncDay_leaves_frame split: option.splits)

lemma syncAttendance_leaves_frame:
  "syncAttendance tz now user l (d\<lparr>leaves := ls\<rparr>)
     = (fst (syncAttendance tz now user l d), (snd (syncAttendance tz now user l d))\<lparr>leaves := ls\<rparr>)"
  by (simp add: syncAttendance_def findEmployee_def syncDays_leaves_frame)

lemma syncAttendance_leaves: "leaves (snd (syncAttendance tz now user l d)) = leaves d"
proof (cases "findEmployee d (l_employee l)")
  case None
  then show ?thesis by (simp add: syncAttendance_def syncDays_null)
next
  case (Some e)
  then show ?thesis
    using syncDays_total [of tz now user e
        "dateRange (setHoursStart tz (l_startDate l)) (setHoursEnd tz (l_endDate l))" d]
    by (auto simp: syncAttendance_def)
qed

lemma syncAttendance_leaveFields:
  "syncAttendance tz now user (leaveFields n u s f l) d = syncAttendance tz now user l d"
  by (simp add: syncAttendance_def leaveFields_def Let_def split: option.splits)

lemma find_updateFirst:
  "find p xs = Some a \<Longrightarrow> p (f a) \<Longrightarrow> find p (updateFirst p f xs) = Some (f a)"
  by (induction xs) (auto split: if_splits)

lemma l_id_leaveFields [simp]: "l_id (leaveFields n u s f l) = l_id l"
  by (simp add: leaveFields_def Let_def split: option.splits)

lemma snd_putLeave_approved:
  "findLeave d i = Some l0 \<Longrightarrow>
   snd (putLeave tz now user i (Some ''approved'') file d)
     = snd (syncAttendance tz now user l0
             (d\<lparr>leaves := updateFirst (\<lambda>x. l_id x = i)
                  (leaveFields now user (Some ''approved'') file) (leaves d)\<rparr>))"
  by (simp add: putLeave_def Let_def syncAttendance_leaveFields split: prod.splits option.splits)

lemma putLeave_twice:
  "attendances (snd (putLeave tz now' user' i (Some ''approved'') file'
                  (snd (putLeave tz now user i (Some ''approved'') file d))))
     = attendances (snd (putLeave tz now user i (Some ''approved'') file d))"
proof (cases "findLeave d i")
  case None
  then show ?thesis by (simp add: putLeave_def)
next
  case (Some l0)
  define ls where "ls = updateFirst (\<lambda>x. l_id x = i)
                          (leaveFields now user (Some ''approved'') file) (leaves d)"
  define d2 where "d2 = snd (syncAttendance tz now user l0 (d\<lparr>leaves := ls\<rparr>))"
  have first: "snd (putLeave tz now user i (Some ''approved'') file d) = d2"
    using snd_putLeave_approved [OF Some] by (simp add: d2_def ls_def)
  have "l_id l0 = i"
    using Some by (auto simp: findLeave_def find_Some_iff)
  then have "find (\<lambda>x. l_id x = i) ls
               = Some (leaveFields now user (Some ''approved'') file l0)"
    using Some unfolding ls_def findLeave_def by (intro find_updateFirst) simp_all
  moreover have "leaves d2 = ls"
    by (simp add: d2_def syncAttendance_leaves)
  ultimately have found: "findLeave d2 i = Some (leaveFields now user (Some ''approved'') file l0)"
    by (simp add: findLeave_def)
  have "snd (putLeave tz now' user' i (Some ''approved'') file' d2)
          = snd (syncAttendance tz now' user' l0
                  (d2\<lparr>leaves := updateFirst (\<lambda>x. l_id x = i)
                         (leaveFields now' user' (Some ''approved'') file') (leaves d2)\<rparr>))"
    using snd_putLeave_approved [OF found] by (simp add: syncAttendance_leaveFields)
  also have "attendances \<dots> = attendances (snd (syncAttendance tz now' user' l0 d2))"
    by (simp add: syncAttendance_leaves_frame)
  also have "\<dots> = attendances d2"
    unfolding d2_def by (simp add: syncAttendance_twice)
  finally show ?thesis by (simp add: first)
qed

section \<open>Facts about the leave routes\<close>

lemma list_ex_find: "list_ex p xs = (find p xs \<noteq> None)"
  by (auto simp: find_None_iff list_ex_iff)

lemma filter_empty_find: "(filter p xs = []) = (find p xs = None)"
  by (auto simp: find_None_iff filter_empty_conv)

lemma errors_distinct:
  "EmployeeInactive \<noteq> NoAttendanceHistory" "EmployeeInactive \<noteq> OverlappingLeave"
  "NoAttendanceHistory \<noteq> OverlappingLeave" "NoAttendanceHistory \<noteq> EmployeeInactive"
  "OverlappingLeave \<noteq> EmployeeInactive" "OverlappingLeave \<noteq> NoAttendanceHistory"
  "EmployeeInactive \<noteq> serverError" "NoAttendanceHistory \<noteq> serverError"
  "OverlappingLeave \<noteq> serverError"
  "serverError \<noteq> EmployeeInactive" "serverError \<noteq> NoAttendanceHistory"
  "serverError \<noteq> OverlappingLeave"
  "HttpError 404 m \<noteq> EmployeeInactive" "HttpError 404 m \<noteq> NoAttendanceHistory"
  "HttpError 404 m \<noteq> OverlappingLeave"
  by (simp_all add: EmployeeInactive_def NoAttendanceHistory_def OverlappingLeave_def serverError_def)

lemma findLeave_id: "findLeave d i = Some l \<Longrightarrow> l_id l = i"
  by (auto simp: findLeave_def find_Some_iff)

lemma l_status_leaveFields:
  "l_status (leaveFields now user status upload l)
     = (case status of None \<Rightarrow> l_status l | Some s \<Rightarrow> if s = [] then l_status l else s)"
  by (simp add: leaveFields_def Let_def split: option.splits)

lemma snd_putLeave_other:
  "findLeave d i = Some l0 \<Longrightarrow> status \<noteq> Some ''approved'' \<Longrightarrow>
   snd (putLeave tz now user i status upload d)
     = d\<lparr>leaves := updateFirst (\<lambda>x. l_id x = i) (leaveFields now user status upload) (leaves d)\<rparr>"
  by (simp add: putLeave_def Let_def)

lemma leaves_snd_putLeave:
  assumes "findLeave d i = Some l0"
  shows "leaves (snd (putLeave tz now user i status upload d))
           = updateFirst (\<lambda>x. l_id x = i) (leaveFields now user status upload) (leaves d)"
proof (cases "status = Some ''approved''")
  case True
  then show ?thesis
    using snd_putLeave_approved [OF assms, of tz now user upload]
    by (simp add: syncAttendance_leaves)
next
  case False
  then show ?thesis
    using snd_putLeave_other [OF assms False, of tz now user upload] by simp
qed

lemma findLeave_snd_putLeave:
  assumes "findLeave d i = Some l0"
  shows "findLeave (snd (putLeave tz now user i status upload d)) i
           = Some (leaveFields now user status upload l0)"
proof -
  have "find (\<lambda>x. l_id x = i)
          (updateFirst (\<lambda>x. l_id x = i) (leaveFields now user status upload) (leaves d))
        = Some (leaveFields now user status upload l0)"
    using assms findLeave_id [OF assms] unfolding findLeave_def
    by (intro find_updateFirst) simp_all
  then show ?thesis
    by (simp add: findLeave_def leaves_snd_putLeave [OF assms])
qed

section \<open>Facts about the report and the calendar\<close>

lemma dateRange_empty: "endDate < currentDate \<Longrightarrow> dateRange currentDate endDate = []"
  by (simp add: dateRange.simps)

lemma end_before_start:
  assumes "localDay tz e < localDay tz s"
  shows "setHoursEnd tz e < setHoursStart tz s"
proof -
  have "\<not> setHoursStart tz s \<le> setHoursEnd tz e"
    using assms by (simp add: setHoursStart_le_iff localDay_setHoursEnd)
  then show ?thesis by simp
qed

lemma those_map_Some: "those (map (\<lambda>x. Some (f x)) xs) = Some (map f xs)"
  by (induction xs) simp_all

lemma reportFor_Nil:
  "reportFor x [] = \<lparr>r_id = e_id x, r_name = e_name x, r_position = e_position x,
      r_department = e_department x, r_present = 0, r_absent = 0, r_halfDay = 0,
      r_leave = 0, r_total = 0\<rparr>"
  by (simp add: reportFor_def countStatus_def)

lemma findEmployee_id: "findEmployee d i = Some p \<Longrightarrow> e_id p = i"
  by (auto simp: findEmployee_def find_Some_iff)

lemma employeeAttendance_populated:
  "\<forall>a \<in> set as. findEmployee d (a_employee a) \<noteq> None \<Longrightarrow>
   employeeAttendance i (map (\<lambda>a. (a, findEmployee d (a_employee a))) as)
     = Some (filter (\<lambda>a. a_employee a = i) as)"
proof (induction as)
  case Nil
  show ?case by simp
next
  case (Cons a as)
  from Cons.prems obtain p where p: "findEmployee d (a_employee a) = Some p"
    by auto
  have "e_id p = a_employee a"
    by (rule findEmployee_id [OF p])
  with Cons p show ?case by auto
qed

lemma countStatus_window:
  "countStatus s
     (filter (\<lambda>a. a_employee a = i)
        (filter (\<lambda>a. setHoursStart tz startDate \<le> a_date a \<and> a_date a \<le> setHoursEnd tz endDate)
           (attendances d)))
   = recordCount tz startDate endDate d i s"
  unfolding countStatus_def recordCount_def filter_filter setHoursStart_le_iff le_setHoursEnd_iff
  by (rule arg_cong [where f = length], rule filter_cong) auto

lemma day_mult_le [simp]: "(a * msPerDay \<le> b * msPerDay) = (a \<le> b)"
  using msPerDay_pos by simp

lemma dateRange_days:
  "dateRange (a * msPerDay) (b * msPerDay) = map (\<lambda>k. k * msPerDay) [a..b]"
proof (induction a b rule: upto.induct)
  case (1 i j)
  show ?case
  proof (cases "i \<le> j")
    case True
    have step: "i * msPerDay + msPerDay = (i + 1) * msPerDay"
      by (simp add: algebra_simps)
    have "i * msPerDay \<le> j * msPerDay"
      using True by simp
    then have "dateRange (i * msPerDay) (j * msPerDay)
            = i * msPerDay # dateRange ((i + 1) * msPerDay) (j * msPerDay)"
      by (subst dateRange.simps) (simp only: step if_True)
    then show ?thesis
      using True "1.IH" by (simp add: upto_rec1)
  next
    case False
    then show ?thesis by (subst dateRange.simps) simp
  qed
qed

lemma aligned_day: "t mod msPerDay = 0 \<Longrightarrow> t = localDay 0 t * msPerDay"
  by (simp add: localDay_def) (metis div_mult_mod_eq add.right_neutral)

lemma newDate_utc:
  "newDate 0 year monthIndex day = localDay 0 (newDate 0 year monthIndex day) * msPerDay"
  by (rule aligned_day) (simp add: newDate_def Let_def)

lemma isoDate_day: "isoDate (k * msPerDay) = civilFromDays k"
  using msPerDay_pos by (simp add: isoDate_def)

lemma max_days: "max (a * msPerDay) (b * msPerDay) = max a b * msPerDay"
  by (simp add: max_def)

lemma min_days: "min (a * msPerDay) (b * msPerDay) = min a b * msPerDay"
  by (simp add: min_def)

lemma overlapQuery_days:
  "overlapQuery (a * msPerDay) (b * msPerDay) (f * msPerDay) (l * msPerDay) = overlapQuery a b f l"
  by (simp add: overlapQuery_def)

lemma no_overlap_empty_clip: "\<not> overlapQuery a b f l \<Longrightarrow> [max a f..min b l] = []"
  unfolding overlapQuery_def by (intro upto_empty) linarith

lemma calendarRange_populated:
  "calendarRange (Some e) l start endD
     = Some (map (\<lambda>t. \<lparr>c_date = isoDate t, c_employee = e_name e, c_type = l_type l\<rparr>)
               (dateRange start endD))"
  by (simp add: calendarRange_def split: list.splits)

lemma those_map_eq: "\<forall>x \<in> set xs. g x = Some (h x) \<Longrightarrow> those (map g xs) = Some (map h xs)"
  by (induction xs) simp_all

lemma concat_filter_drop:
  "\<forall>x \<in> set xs. P x \<and> \<not> Q x \<longrightarrow> h x = [] \<Longrightarrow>
   concat (map h (filter (\<lambda>x. P x \<and> Q x) xs)) = concat (map h (filter P xs))"
  by (induction xs) auto

lemma leaveCalendar_steps:
  assumes populated: "\<forall>l \<in> set (leaves d).
                      l_status l = ''approved'' \<longrightarrow> findEmployee d (l_employee l) \<noteq> None"
  shows "leaveCalendar tz (Some month) (Some year) d
           = Inr (concat (map (\<lambda>l. map (\<lambda>t. \<lparr>c_date = isoDate t,
                                               c_employee = employeeName d (l_employee l),
                                               c_type = l_type l\<rparr>)
                                     (dateRange
                                        (max (l_startDate l) (newDate tz year (month - 1) 1))
                                        (min (l_endDate l) (newDate tz year month 0))))
                            (filter (\<lambda>l. l_status l = ''approved''
                                         \<and> overlapQuery (l_startDate l) (l_endDate l)
                                              (newDate tz year (month - 1) 1)
                                              (newDate tz year month 0))
                               (leaves d))))"
proof -
  define ls where "ls = filter (\<lambda>l. l_status l = ''approved''
                                     \<and> overlapQuery (l_startDate l) (l_endDate l)
                                          (newDate tz year (month - 1) 1)
                                          (newDate tz year month 0))
                           (leaves d)"
  define h where "h = (\<lambda>l :: leave. map (\<lambda>t. \<lparr>c_date = isoDate t,
                                               c_employee = employeeName d (l_employee l),
                                               c_type = l_type l\<rparr>)
                                     (dateRange
                                        (max (l_startDate l) (newDate tz year (month - 1) 1))
                                        (min (l_endDate l) (newDate tz year month 0))))"
  have "calendarRange (findEmployee d (l_employee l)) l
          (max (l_startDate l) (newDate tz year (month - 1) 1))
          (min (l_endDate l) (newDate tz year month 0)) = Some (h l)"
    if "l \<in> set ls" for l
  proof -
    from populated that obtain e where "findEmployee d (l_employee l) = Some e"
      by (auto simp: ls_def)
    then show ?thesis
      by (simp add: calendarRange_populated h_def employeeName_def)
  qed
  then have "those (map (\<lambda>l. calendarRange (findEmployee d (l_employee l)) l
                               (max (l_startDate l) (newDate tz year (month - 1) 1))
                               (min (l_endDate l) (newDate tz year month 0))) ls)
               = Some (map h ls)"
    by (intro those_map_eq) simp
  then show ?thesis
    by (simp add: leaveCalendar_def Let_def ls_def [symmetric]) (simp add: h_def ls_def)
qed

lemma leaveCalendar_days:
  assumes aligned: "\<forall>l \<in> set (leaves d).
                      l_status l = ''approved'' \<longrightarrow>
                      l_startDate l mod msPerDay = 0 \<and> l_endDate l mod msPerDay = 0"
      and populated: "\<forall>l \<in> set (leaves d).
                      l_status l = ''approved'' \<longrightarrow> findEmployee d (l_employee l) \<noteq> None"
  shows "leaveCalendar 0 (Some month) (Some year) d
           = Inr (concat (map (\<lambda>l. map (\<lambda>k. \<lparr>c_date = civilFromDays k,
                                               c_employee = employeeName d (l_employee l),
                                               c_type = l_type l\<rparr>)
                                     [max (localDay 0 (l_startDate l)) (firstDayOfMonth year month)
                                      .. min (localDay 0 (l_endDate l)) (lastDayOfMonth year month)])
                            (filter (\<lambda>l. l_status l = ''approved'') (leaves d))))"
proof -
  define F where "F = firstDayOfMonth year month"
  define L where "L = lastDayOfMonth year month"
  define h where "h = (\<lambda>l :: leave. map (\<lambda>k. \<lparr>c_date = civilFromDays k,
                                      c_employee = employeeName d (l_employee l),
                                      c_type = l_type l\<rparr>)
                            [max (localDay 0 (l_startDate l)) F .. min (localDay 0 (l_endDate l)) L])"
  define g where "g = (\<lambda>l :: leave. calendarRange (findEmployee d (l_employee l)) l
                            (max (l_startDate l) (newDate 0 year (month - 1) 1))
                            (min (l_endDate l) (newDate 0 year month 0)))"
  define ov where "ov = (\<lambda>l :: leave. overlapQuery (l_startDate l) (l_endDate l)
                             (newDate 0 year (month - 1) 1) (newDate 0 year month 0))"
  have S: "newDate 0 year (month - 1) 1 = F * msPerDay"
    unfolding F_def firstDayOfMonth_def by (rule newDate_utc)
  have E: "newDate 0 year month 0 = L * msPerDay"
    unfolding L_def lastDayOfMonth_def by (rule newDate_utc)
  have ls: "l_startDate l = localDay 0 (l_startDate l) * msPerDay"
    and le: "l_endDate l = localDay 0 (l_endDate l) * msPerDay"
    if "l \<in> set (leaves d)" "l_status l = ''approved''" for l
    using aligned that by (auto intro: aligned_day)
  have g: "g l = Some (h l)" if "l \<in> set (leaves d)" "l_status l = ''approved''" for l
  proof -
    from populated that obtain e where e: "findEmployee d (l_employee l) = Some e"
      by auto
    have "max (l_startDate l) (F * msPerDay) = max (localDay 0 (l_startDate l)) F * msPerDay"
      by (subst ls [OF that]) (rule max_days)
    moreover have "min (l_endDate l) (L * msPerDay) = min (localDay 0 (l_endDate l)) L * msPerDay"
      by (subst le [OF that]) (rule min_days)
    ultimately show ?thesis
      by (simp add: g_def h_def S E e calendarRange_populated dateRange_days isoDate_day
            employeeName_def o_def)
  qed
  have empty: "h l = []" if "l \<in> set (leaves d)" "l_status l = ''approved''" "\<not> ov l" for l
  proof -
    have "\<not> overlapQuery (localDay 0 (l_startDate l)) (localDay 0 (l_endDate l)) F L"
      using that(3) unfolding ov_def S E
      by (subst (asm) ls [OF that(1,2)], subst (asm) le [OF that(1,2)])
         (simp add: overlapQuery_days)
    then show ?thesis
      by (simp add: h_def no_overlap_empty_clip)
  qed
  have those: "those (map g (filter (\<lambda>l. l_status l = ''approved'' \<and> ov l) (leaves d)))
          = Some (map h (filter (\<lambda>l. l_status l = ''approved'' \<and> ov l) (leaves d)))"
    by (rule those_map_eq) (simp add: g)
  have "leaveCalendar 0 (Some month) (Some year) d
          = (case those (map g (filter (\<lambda>l. l_status l = ''approved'' \<and> ov l) (leaves d))) of
               None \<Rightarrow> Inl serverError
             | Some calendarLeaves \<Rightarrow> Inr (concat calendarLeaves))"
    by (simp add: leaveCalendar_def Let_def g_def ov_def)
  also have "\<dots> = Inr (concat (map h (filter (\<lambda>l. l_status l = ''approved'' \<and> ov l) (leaves d))))"
    by (simp add: those)
  also have "concat (map h (filter (\<lambda>l. l_status l = ''approved'' \<and> ov l) (leaves d)))
          = concat (map h (filter (\<lambda>l. l_status l = ''approved'') (leaves d)))"
    by (rule concat_filter_drop) (simp add: empty)
  finally show ?thesis
    by (simp add: h_def F_def L_def)
qed

section \<open>Facts about the router\<close>

lemma matchPath_param1:
  "matchPath [Param n] path
     = (case path of [x] \<Rightarrow> if x = [] then None else Some [(n, x)] | _ \<Rightarrow> None)"
  by (cases path; cases "tl path") auto

lemma matchPath_lit1:
  "matchPath [Lit s] path
     = (case path of [x] \<Rightarrow> if map lowerChar x = map lowerChar s then Some [] else None
        | _ \<Rightarrow> None)"
  by (cases path; cases "tl path") auto

lemma calendar_never_dispatched: "dispatch m path \<noteq> Some (LeaveCalendar, params)"
proof (cases m)
  case GET
  show ?thesis
  proof (cases path)
    case Nil
    then show ?thesis by (simp add: dispatch_def leaveRoutes_def GET)
  next
    case (Cons x xs)
    show ?thesis
    proof (cases xs)
      case Nil
      then show ?thesis
        using Cons GET
        by (auto simp: dispatch_def leaveRoutes_def split: option.splits if_splits)
    next
      case (Cons y ys)
      then show ?thesis
        using \<open>path = x # xs\<close> GET
        by (cases ys) (auto simp: dispatch_def leaveRoutes_def split: option.splits if_splits)
    qed
  qed
qed (simp_all add: dispatch_def leaveRoutes_def split: option.splits)

section \<open>The claims\<close>

subsection \<open>C10: the overlap filter is the closed-interval test\<close>

text \<open>
  C10. For intervals with \<open>aStart \<le> aEnd\<close> and \<open>bStart \<le> bEnd\<close>, the three-case disjunction
  of the source (the start of \<open>a\<close> lies in \<open>b\<close>, or the end of \<open>a\<close> lies in \<open>b\<close>, or \<open>a\<close> contains
  \<open>b\<close>) holds exactly when \<open>aStart \<le> bEnd\<close> and \<open>bStart \<le> aEnd\<close>, and it is symmetric in
  the two intervals.
\<close>

theorem overlapQuery_is_closed_interval_overlap:
  assumes "aStart \<le> aEnd" and "bStart \<le> bEnd"
  shows "(overlapQuery aStart aEnd bStart bEnd \<longleftrightarrow> overlaps_spec aStart aEnd bStart bEnd)
         \<and> (overlapQuery aStart aEnd bStart bEnd \<longleftrightarrow> overlapQuery bStart bEnd aStart aEnd)"
  using assms unfolding overlapQuery_def overlaps_spec_def by linarith

theorem overlapQuery_is_closed_interval_overlap_witness:
  "parseDate 2024 1 10 \<le> parseDate 2024 1 12 \<and> parseDate 2024 1 11 \<le> parseDate 2024 1 15
   \<and> overlapQuery (parseDate 2024 1 10) (parseDate 2024 1 12)
        (parseDate 2024 1 11) (parseDate 2024 1 15)
   \<and> overlaps_spec (parseDate 2024 1 10) (parseDate 2024 1 12)
        (parseDate 2024 1 11) (parseDate 2024 1 15)
   \<and> overlapQuery (parseDate 2024 1 11) (parseDate 2024 1 15)
        (parseDate 2024 1 10) (parseDate 2024 1 12)"
proof -
  have a: "parseDate 2024 1 10 \<le> parseDate 2024 1 12"
    by code_simp
  have b: "parseDate 2024 1 11 \<le> parseDate 2024 1 15"
    by code_simp
  have c: "overlaps_spec (parseDate 2024 1 10) (parseDate 2024 1 12)
             (parseDate 2024 1 11) (parseDate 2024 1 15)"
    by code_simp
  show ?thesis
    using overlapQuery_is_closed_interval_overlap [OF a b] a b c by blast
qed

subsection \<open>C2: the sync is idempotent\<close>

text \<open>
  C2. Running the sync of a leave a second time, on the state the first run left, gives
  the same outcome and the same state as the first run alone, whatever the starting state,
  the clock and the acting user of either run: no document is added and no status changes.
  The same holds through the route: approving a leave twice with \<open>PUT /leaves/:id\<close> leaves
  the attendance collection as the first approval left it.
\<close>

theorem sync_idempotent:
  "syncAttendance tz now' user' l (snd (syncAttendance tz now user l d))
     = syncAttendance tz now user l d
   \<and> attendances (snd (putLeave tz now' user' i (Some ''approved'') file'
                        (snd (putLeave tz now user i (Some ''approved'') file d))))
     = attendances (snd (putLeave tz now user i (Some ''approved'') file d))"
  by (simp only: syncAttendance_twice putLeave_twice)

theorem sync_idempotent_witness:
  "syncAttendance 0 6 8 leave3 (snd (syncAttendance 0 5 9 leave3 scenario))
     = syncAttendance 0 5 9 leave3 scenario
   \<and> attendances (snd (putLeave 0 6 8 3 (Some ''approved'') None
                        (snd (putLeave 0 5 9 3 (Some ''approved'') None scenario))))
     = attendances (snd (putLeave 0 5 9 3 (Some ''approved'') None scenario))
   \<and> map (\<lambda>a. (a_date a, a_status a))
        (attendances (snd (putLeave 0 5 9 3 (Some ''approved'') None scenario)))
     = [(1704412800000, ''present''), (1704931199999, ''leave''),
        (1705017599999, ''leave''), (1705103999999, ''leave'')]"
proof -
  have "map (\<lambda>a. (a_date a, a_status a))
          (attendances (snd (putLeave 0 5 9 3 (Some ''approved'') None scenario)))
        = [(1704412800000, ''present''), (1704931199999, ''leave''),
           (1705017599999, ''leave''), (1705103999999, ''leave'')]"
    by code_simp
  then show ?thesis
    using sync_idempotent [of 0 6 8 leave3 5 9 scenario 3 None None] by blast
qed

subsection \<open>C1: one attendance record per employee and day\<close>

text \<open>
  C1 says that after any sequence of manual entries and syncs there is at most one
  attendance record for an employee and a calendar day. The source compares and indexes
  the exact timestamp, while the sync stores the last millisecond of the day. In the
  scenario (server in UTC), leave 3 is approved and then a manual entry for 2024-01-10 is
  posted for the same employee: the entry is accepted, and the employee has two records on
  that day, one \<open>'leave'\<close> and one \<open>'present'\<close>.
\<close>

theorem duplicate_attendance_after_sync:
  "fst (postAttendance 7 9 1 (parseDate 2024 1 10) ''present''
          (snd (putLeave 0 5 9 3 (Some ''approved'') None scenario)))
     = Inr \<lparr>a_id = 7, a_employee = 1, a_date = 1704844800000, a_status = ''present'',
            a_createdBy = 9, a_createdAt = 7\<rparr>
   \<and> map (\<lambda>a. (a_date a, a_status a))
       (filter (\<lambda>a. a_employee a = 1 \<and> localDay 0 (a_date a) = daysFromCivil 2024 1 10)
          (attendances
             (snd (postAttendance 7 9 1 (parseDate 2024 1 10) ''present''
                     (snd (putLeave 0 5 9 3 (Some ''approved'') None scenario))))))
     = [(1704931199999, ''leave''), (1704844800000, ''present'')]"
  by code_simp

subsection \<open>C9: the failures of leave creation\<close>

text \<open>
  C9 says that \<open>POST /leaves\<close> fails with \<open>EmployeeInactive\<close> exactly when the employee exists
  and is not active, with \<open>NoAttendanceHistory\<close> exactly when the employee has no attendance
  record with status \<open>'present'\<close>, and that a created leave is pending. The second
  "exactly when" fails: the route tests the employee first, so for an inactive employee
  without any attendance record the answer is \<open>EmployeeInactive\<close>.
\<close>

theorem postLeave_failures_counterexample:
  "length (filter (\<lambda>a. a_employee a = 1 \<and> a_status a = ''present'')
             (attendances scenarioInactive)) = 0
   \<and> fst (postLeave 8 9 1 (parseDate 2024 1 20) (parseDate 2024 1 22) ''trip'' ''annual'' None
            scenarioInactive) = Inl EmployeeInactive
   \<and> fst (postLeave 8 9 1 (parseDate 2024 1 20) (parseDate 2024 1 22) ''trip'' ''annual'' None
            scenarioInactive) \<noteq> Inl NoAttendanceHistory"
  by code_simp

text \<open>
  C9 as amended. The route fails with \<open>EmployeeInactive\<close> exactly when the employee exists
  and its status is not \<open>'active'\<close>; it fails with \<open>NoAttendanceHistory\<close> exactly when the
  employee exists, is active and has no attendance record with status \<open>'present'\<close>; and a
  leave it creates has status \<open>'pending'\<close> and is appended to the collection.
\<close>

theorem postLeave_failures:
  "(fst (postLeave now user emp startDate endDate reason type file d) = Inl EmployeeInactive
      \<longleftrightarrow> (\<exists>x. findEmployee d emp = Some x \<and> e_status x \<noteq> ''active''))
   \<and> (fst (postLeave now user emp startDate endDate reason type file d) = Inl NoAttendanceHistory
      \<longleftrightarrow> (\<exists>x. findEmployee d emp = Some x \<and> e_status x = ''active'')
          \<and> length (filter (\<lambda>a. a_employee a = emp \<and> a_status a = ''present'') (attendances d)) = 0)
   \<and> (\<forall>l. fst (postLeave now user emp startDate endDate reason type file d) = Inr l
          \<longrightarrow> l_status l = ''pending''
              \<and> leaves (snd (postLeave now user emp startDate endDate reason type file d))
                  = leaves d @ [l])"
  by (auto simp: postLeave_def errors_distinct filter_empty_find Let_def
           split: option.splits if_splits)

theorem postLeave_failures_witness:
  "fst (postLeave 8 9 1 (parseDate 2024 1 20) (parseDate 2024 1 22) ''trip'' ''annual'' None
          scenarioInactive) = Inl EmployeeInactive
   \<and> fst (postLeave 8 9 1 (parseDate 2024 1 20) (parseDate 2024 1 22) ''trip'' ''annual'' None
          (scenario\<lparr>attendances := []\<rparr>)) = Inl NoAttendanceHistory
   \<and> l_status \<lparr>l_id = 4, l_employee = 1, l_startDate = parseDate 2024 1 20,
          l_endDate = parseDate 2024 1 22, l_reason = ''trip'', l_type = ''annual'',
          l_status = ''pending'', l_document = [], l_createdBy = 9, l_updatedBy = None,
          l_createdAt = 8, l_updatedAt = None\<rparr> = ''pending''"
proof -
  have a: "\<exists>x. findEmployee scenarioInactive 1 = Some x \<and> e_status x \<noteq> ''active''"
    by (simp add: scenarioInactive_def scenario_def employee1_def findEmployee_def)
  have b: "(\<exists>x. findEmployee (scenario\<lparr>attendances := []\<rparr>) 1 = Some x \<and> e_status x = ''active'')
           \<and> length (filter (\<lambda>a. a_employee a = 1 \<and> a_status a = ''present'')
                        (attendances (scenario\<lparr>attendances := []\<rparr>))) = 0"
    by (simp add: scenario_def employee1_def findEmployee_def)
  have c: "fst (postLeave 8 9 1 (parseDate 2024 1 20) (parseDate 2024 1 22) ''trip'' ''annual''
                  None scenario)
           = Inr \<lparr>l_id = 4, l_employee = 1, l_startDate = parseDate 2024 1 20,
                  l_endDate = parseDate 2024 1 22, l_reason = ''trip'', l_type = ''annual'',
                  l_status = ''pending'', l_document = [], l_createdBy = 9, l_updatedBy = None,
                  l_createdAt = 8, l_updatedAt = None\<rparr>"
    by code_simp
  show ?thesis
    using postLeave_failures [of 8 9 1 "parseDate 2024 1 20" "parseDate 2024 1 22" "''trip''"
            "''annual''" None scenarioInactive] a
          postLeave_failures [of 8 9 1 "parseDate 2024 1 20" "parseDate 2024 1 22" "''trip''"
            "''annual''" None "scenario\<lparr>attendances := []\<rparr>"] b
          postLeave_failures [of 8 9 1 "parseDate 2024 1 20" "parseDate 2024 1 22" "''trip''"
            "''annual''" None scenario] c
    by blast
qed

subsection \<open>C3: rejected leaves and the overlap check\<close>

text \<open>
  C3 says that the overlap check of \<open>POST /leaves\<close> skips rejected requests. The filter of
  the source has no condition on the status: with leave 3 rejected (2024-01-10 to
  2024-01-12) as the employee's only request, a request for 2024-01-11 to 2024-01-15 is
  refused with \<open>OverlappingLeave\<close>.
\<close>

theorem postLeave_overlap_any_status_counterexample:
  "map l_status (filter (\<lambda>l. l_employee l = 1) (leaves scenarioRejected)) = [''rejected'']
   \<and> fst (postLeave 8 9 1 (parseDate 2024 1 11) (parseDate 2024 1 15) ''trip'' ''annual'' None
            scenarioRejected) = Inl OverlappingLeave"
  by code_simp

text \<open>
  C3 as amended. The overlap check considers every existing request of the employee,
  whatever its status: the create fails with \<open>OverlappingLeave\<close> exactly when the employee
  exists, is active, has a \<open>'present'\<close> attendance record, and some request of the employee,
  rejected ones included, satisfies the overlap filter against the new interval.
\<close>

theorem postLeave_overlap_any_status:
  "(fst (postLeave now user emp startDate endDate reason type file d) = Inl OverlappingLeave
      \<longleftrightarrow> (\<exists>x. findEmployee d emp = Some x \<and> e_status x = ''active'')
          \<and> list_ex (\<lambda>a. a_employee a = emp \<and> a_status a = ''present'') (attendances d)
          \<and> list_ex (\<lambda>l. l_employee l = emp
                          \<and> overlapQuery (l_startDate l) (l_endDate l) startDate endDate)
               (leaves d))"
  by (auto simp: postLeave_def errors_distinct list_ex_find Let_def
           split: option.splits if_splits)

theorem postLeave_overlap_any_status_witness:
  "fst (postLeave 8 9 1 (parseDate 2024 1 11) (parseDate 2024 1 15) ''trip'' ''annual'' None
          scenario) = Inl OverlappingLeave
   \<and> fst (postLeave 8 9 1 (parseDate 2024 1 13) (parseDate 2024 1 15) ''trip'' ''annual'' None
          scenarioRejected) \<noteq> Inl OverlappingLeave"
proof -
  have a: "(\<exists>x. findEmployee scenario 1 = Some x \<and> e_status x = ''active'')
           \<and> list_ex (\<lambda>a. a_employee a = 1 \<and> a_status a = ''present'') (attendances scenario)"
    by (simp add: scenario_def employee1_def findEmployee_def present0105_def)
  have b: "list_ex (\<lambda>l. l_employee l = 1 \<and> overlapQuery (l_startDate l) (l_endDate l)
                          (parseDate 2024 1 11) (parseDate 2024 1 15)) (leaves scenario)"
    by code_simp
  have c: "\<not> list_ex (\<lambda>l. l_employee l = 1 \<and> overlapQuery (l_startDate l) (l_endDate l)
                          (parseDate 2024 1 13) (parseDate 2024 1 15)) (leaves scenarioRejected)"
    by code_simp
  show ?thesis
    using postLeave_overlap_any_status [of 8 9 1 "parseDate 2024 1 11" "parseDate 2024 1 15"
            "''trip''" "''annual''" None scenario] a b
          postLeave_overlap_any_status [of 8 9 1 "parseDate 2024 1 13" "parseDate 2024 1 15"
            "''trip''" "''annual''" None scenarioRejected] c
    by blast
qed

subsection \<open>C4: status transitions of a leave\<close>

text \<open>
  C4 says that \<open>PUT /leaves/:id\<close> only moves a leave from pending to approved or rejected (or
  re-approves), never from rejected to approved, and never syncs when the resulting
  status is pending or rejected. The route stores whatever status the request carries:
  the rejected leave 3 becomes approved and its days are written to attendance.
\<close>

theorem putLeave_transition_counterexample:
  "map_option l_status (findLeave scenarioRejected 3) = Some ''rejected''
   \<and> map_option l_status
       (findLeave (snd (putLeave 0 5 9 3 (Some ''approved'') None scenarioRejected)) 3)
     = Some ''approved''
   \<and> map a_status (attendances (snd (putLeave 0 5 9 3 (Some ''approved'') None scenarioRejected)))
     = [''present'', ''leave'', ''leave'', ''leave'']"
  by code_simp

text \<open>
  C4 as amended. For an existing leave, the route sets the status to the non-empty status
  of the request, whatever the status was before, and keeps it when the request has none.
  The sync runs exactly when the request's status is \<open>'approved'\<close>; otherwise only the leave
  document changes. So when the resulting status is \<open>'pending'\<close> or \<open>'rejected'\<close>, the
  attendance collection is untouched.
\<close>

theorem putLeave_transition:
  assumes "findLeave d i = Some l0"
  shows "map_option l_status (findLeave (snd (putLeave tz now user i status upload d)) i)
           = Some (case status of None \<Rightarrow> l_status l0
                   | Some s \<Rightarrow> if s = [] then l_status l0 else s)
         \<and> (status = Some ''approved'' \<longrightarrow>
              snd (putLeave tz now user i status upload d)
                = snd (syncAttendance tz now user l0
                         (d\<lparr>leaves := updateFirst (\<lambda>x. l_id x = i)
                                (leaveFields now user status upload) (leaves d)\<rparr>)))
         \<and> (status \<noteq> Some ''approved'' \<longrightarrow>
              snd (putLeave tz now user i status upload d)
                = d\<lparr>leaves := updateFirst (\<lambda>x. l_id x = i)
                       (leaveFields now user status upload) (leaves d)\<rparr>)
         \<and> (map_option l_status (findLeave (snd (putLeave tz now user i status upload d)) i)
               \<in> {Some ''pending'', Some ''rejected''} \<longrightarrow>
              attendances (snd (putLeave tz now user i status upload d)) = attendances d
              \<and> nextId (snd (putLeave tz now user i status upload d)) = nextId d)"
proof -
  have 1: "map_option l_status (findLeave (snd (putLeave tz now user i status upload d)) i)
           = Some (case status of None \<Rightarrow> l_status l0
                   | Some s \<Rightarrow> if s = [] then l_status l0 else s)"
    by (simp add: findLeave_snd_putLeave [OF assms] l_status_leaveFields)
  have 2: "status = Some ''approved'' \<Longrightarrow>
              snd (putLeave tz now user i status upload d)
                = snd (syncAttendance tz now user l0
                         (d\<lparr>leaves := updateFirst (\<lambda>x. l_id x = i)
                                (leaveFields now user status upload) (leaves d)\<rparr>))"
    using snd_putLeave_approved [OF assms] by simp
  have 3: "status \<noteq> Some ''approved'' \<Longrightarrow>
              snd (putLeave tz now user i status upload d)
                = d\<lparr>leaves := updateFirst (\<lambda>x. l_id x = i)
                       (leaveFields now user status upload) (leaves d)\<rparr>"
    using snd_putLeave_other [OF assms] by simp
  have 4: "status \<noteq> Some ''approved''"
    if "map_option l_status (findLeave (snd (putLeave tz now user i status upload d)) i)
          \<in> {Some ''pending'', Some ''rejected''}"
    using that unfolding 1 by auto
  have 5: "attendances (snd (putLeave tz now user i status upload d)) = attendances d
           \<and> nextId (snd (putLeave tz now user i status upload d)) = nextId d"
    if "status \<noteq> Some ''approved''"
    by (simp add: 3 [OF that])
  show ?thesis
  proof (intro conjI impI)
    show "map_option l_status (findLeave (snd (putLeave tz now user i status upload d)) i)
           = Some (case status of None \<Rightarrow> l_status l0
                   | Some s \<Rightarrow> if s = [] then l_status l0 else s)"
      by (rule 1)
  qed (use 2 3 4 5 in blast)+
qed

theorem putLeave_transition_witness:
  "findLeave scenario 3 = Some leave3
   \<and> map_option l_status (findLeave (snd (putLeave 0 5 9 3 (Some ''rejected'') None scenario)) 3)
     = Some ''rejected''
   \<and> attendances (snd (putLeave 0 5 9 3 (Some ''rejected'') None scenario)) = attendances scenario
   \<and> map_option l_status (findLeave (snd (putLeave 0 5 9 3 (Some ''approved'') None scenario)) 3)
     = Some ''approved''"
proof -
  have a: "findLeave scenario 3 = Some leave3"
    by (simp add: findLeave_def scenario_def leave3_def)
  have b: "Some ''rejected'' \<noteq> Some ''approved''"
    by simp
  have c: "(case Some ''rejected'' of None \<Rightarrow> l_status leave3
            | Some s \<Rightarrow> if s = [] then l_status leave3 else s) = ''rejected''"
    by simp
  have e: "(case Some ''approved'' of None \<Rightarrow> l_status leave3
            | Some s \<Rightarrow> if s = [] then l_status leave3 else s) = ''approved''"
    by simp
  show ?thesis
    using a b putLeave_transition [OF a, of 0 5 9 "Some ''rejected''" None, unfolded c]
      putLeave_transition [OF a, of 0 5 9 "Some ''approved''" None, unfolded e]
    by blast
qed

subsection \<open>C5: a range whose start is after its end\<close>

text \<open>
  C5 says that expanding a range with start after end fails with \<open>InvalidRange\<close>, and that
  the attendance report does so too. The source has no such check: the loop that expands
  the range returns the empty list, and the report answers with one entry per active
  employee, all counts zero.
\<close>

theorem start_after_end_gives_empty_results_counterexample:
  "dateRange (setHoursStart 0 (parseDate 2024 1 12)) (setHoursEnd 0 (parseDate 2024 1 10)) = []
   \<and> attendanceReport 0 (Some (parseDate 2024 1 31)) (Some (parseDate 2024 1 1)) scenario
       = Inr [\<lparr>r_id = 1, r_name = ''Asha'', r_position = ''Engineer'',
               r_department = ''Platform'', r_present = 0, r_absent = 0, r_halfDay = 0,
               r_leave = 0, r_total = 0\<rparr>]"
  by code_simp

text \<open>
  C5 as amended. When the day of the start is after the day of the end, the expansion of
  the range is the empty sequence, and the attendance report succeeds with one entry for
  every active employee in which every count and the total are zero.
\<close>

theorem start_after_end_gives_empty_results:
  assumes "localDay tz endDate < localDay tz startDate"
  shows "dateRange (setHoursStart tz startDate) (setHoursEnd tz endDate) = []
         \<and> attendanceReport tz (Some startDate) (Some endDate) d
             = Inr (map (\<lambda>x. \<lparr>r_id = e_id x, r_name = e_name x, r_position = e_position x,
                                r_department = e_department x, r_present = 0, r_absent = 0,
                                r_halfDay = 0, r_leave = 0, r_total = 0\<rparr>)
                      (filter (\<lambda>x. e_status x = ''active'') (employees d)))"
proof -
  have lt: "setHoursEnd tz endDate < setHoursStart tz startDate"
    by (rule end_before_start [OF assms])
  then have "filter (\<lambda>a. setHoursStart tz startDate \<le> a_date a \<and> a_date a \<le> setHoursEnd tz endDate)
               (attendances d) = []"
    by (auto simp: filter_empty_conv)
  then have "attendanceReport tz (Some startDate) (Some endDate) d
             = Inr (map (\<lambda>x. reportFor x []) (filter (\<lambda>x. e_status x = ''active'') (employees d)))"
    by (simp add: attendanceReport_def Let_def those_map_Some)
  then show ?thesis
    using lt by (simp add: dateRange_empty reportFor_Nil)
qed

theorem start_after_end_gives_empty_results_witness:
  "localDay 0 (parseDate 2024 1 10) < localDay 0 (parseDate 2024 1 12)
   \<and> dateRange (setHoursStart 0 (parseDate 2024 1 12)) (setHoursEnd 0 (parseDate 2024 1 10)) = []
   \<and> attendanceReport 0 (Some (parseDate 2024 1 12)) (Some (parseDate 2024 1 10)) scenario
       = Inr [\<lparr>r_id = 1, r_name = ''Asha'', r_position = ''Engineer'',
               r_department = ''Platform'', r_present = 0, r_absent = 0, r_halfDay = 0,
               r_leave = 0, r_total = 0\<rparr>]"
proof -
  have a: "localDay 0 (parseDate 2024 1 10) < localDay 0 (parseDate 2024 1 12)"
    by code_simp
  have b: "filter (\<lambda>x. e_status x = ''active'') (employees scenario) = [employee1]"
    by (simp add: scenario_def employee1_def)
  show ?thesis
    using a start_after_end_gives_empty_results [OF a, of scenario]
    by (simp add: b) (simp add: employee1_def)
qed

subsection \<open>C6: the attendance report\<close>

text \<open>
  C6 says that the attendance report has one entry for every active employee, with the
  counts of the employee's records in the range by status and their sum. The handler
  reads \<open>record.employee._id\<close> of every populated record of the range, and that reference
  is null once the employee of a record was deleted: with the active employees 1 and 8,
  after \<open>DELETE /employees/1\<close> the record of 2024-01-05 stays, and the report for January
  2024 is a 500 instead of the entry of employee 8. Before the deletion the report has
  both entries.
\<close>

theorem attendanceReport_fails_after_delete:
  "attendanceReport 0 (Some (parseDate 2024 1 1)) (Some (parseDate 2024 1 31)) twoEmployees
     = Inr [\<lparr>r_id = 1, r_name = ''Asha'', r_position = ''Engineer'', r_department = ''Platform'',
             r_present = 1, r_absent = 0, r_halfDay = 0, r_leave = 0, r_total = 1\<rparr>,
            \<lparr>r_id = 8, r_name = ''Ravi'', r_position = ''Analyst'', r_department = ''Finance'',
             r_present = 0, r_absent = 0, r_halfDay = 0, r_leave = 0, r_total = 0\<rparr>]
   \<and> fst (deleteEmployee 1 twoEmployees) = Inr ''Employee removed''
   \<and> map e_id (filter (\<lambda>x. e_status x = ''active'')
                  (employees (snd (deleteEmployee 1 twoEmployees)))) = [8]
   \<and> map a_employee (attendances (snd (deleteEmployee 1 twoEmployees))) = [1]
   \<and> attendanceReport 0 (Some (parseDate 2024 1 1)) (Some (parseDate 2024 1 31))
        (snd (deleteEmployee 1 twoEmployees))
     = Inl (HttpError 500 ''Server error'')"
  by code_simp

text \<open>
  What the handler does when no reference is null: given that every attendance record in
  the window refers to an employee that exists, the report has one entry for every active
  employee, in the order of the collection; each count is the number of the employee's
  records with that status on the days from the start day to the end day, so an employee
  without records has all counts zero; and the total is the sum of the four counts. In
  the scenario, after leave 3 is approved, the report for January 2024 is
  \<open>{present: 1, absent: 0, halfDay: 0, leave: 3, total: 4}\<close>.
\<close>

lemma attendanceReport_tallies:
  assumes "\<forall>a \<in> set (attendances d).
             localDay tz startDate \<le> localDay tz (a_date a)
             \<and> localDay tz (a_date a) \<le> localDay tz endDate
             \<longrightarrow> findEmployee d (a_employee a) \<noteq> None"
  shows "attendanceReport tz (Some startDate) (Some endDate) d
           = Inr (map (\<lambda>x. \<lparr>r_id = e_id x, r_name = e_name x, r_position = e_position x,
                              r_department = e_department x,
                              r_present = recordCount tz startDate endDate d (e_id x) ''present'',
                              r_absent = recordCount tz startDate endDate d (e_id x) ''absent'',
                              r_halfDay = recordCount tz startDate endDate d (e_id x) ''half-day'',
                              r_leave = recordCount tz startDate endDate d (e_id x) ''leave'',
                              r_total = recordCount tz startDate endDate d (e_id x) ''present''
                                        + recordCount tz startDate endDate d (e_id x) ''absent''
                                        + recordCount tz startDate endDate d (e_id x) ''half-day''
                                        + recordCount tz startDate endDate d (e_id x) ''leave''\<rparr>)
                    (filter (\<lambda>x. e_status x = ''active'') (employees d)))"
proof -
  define window where "window = filter (\<lambda>a. setHoursStart tz startDate \<le> a_date a
                                    \<and> a_date a \<le> setHoursEnd tz endDate) (attendances d)"
  have "\<forall>a \<in> set window. findEmployee d (a_employee a) \<noteq> None"
    using assms by (simp add: window_def setHoursStart_le_iff le_setHoursEnd_iff)
  then have pop: "employeeAttendance i (map (\<lambda>a. (a, findEmployee d (a_employee a))) window)
                   = Some (filter (\<lambda>a. a_employee a = i) window)" for i
    by (rule employeeAttendance_populated)
  have "attendanceReport tz (Some startDate) (Some endDate) d
          = Inr (map (\<lambda>x. reportFor x (filter (\<lambda>a. a_employee a = e_id x) window))
                   (filter (\<lambda>x. e_status x = ''active'') (employees d)))"
    by (simp add: attendanceReport_def Let_def window_def [symmetric] pop those_map_Some)
  also have "\<dots> = Inr (map (\<lambda>x. \<lparr>r_id = e_id x, r_name = e_name x, r_position = e_position x,
                              r_department = e_department x,
                              r_present = recordCount tz startDate endDate d (e_id x) ''present'',
                              r_absent = recordCount tz startDate endDate d (e_id x) ''absent'',
                              r_halfDay = recordCount tz startDate endDate d (e_id x) ''half-day'',
                              r_leave = recordCount tz startDate endDate d (e_id x) ''leave'',
                              r_total = recordCount tz startDate endDate d (e_id x) ''present''
                                        + recordCount tz startDate endDate d (e_id x) ''absent''
                                        + recordCount tz startDate endDate d (e_id x) ''half-day''
                                        + recordCount tz startDate endDate d (e_id x) ''leave''\<rparr>)
                    (filter (\<lambda>x. e_status x = ''active'') (employees d)))"
    unfolding window_def reportFor_def Let_def countStatus_window ..
  finally show ?thesis .
qed

lemma attendanceReport_tallies_example:
  "attendanceReport 0 (Some (parseDate 2024 1 1)) (Some (parseDate 2024 1 31))
     (snd (putLeave 0 5 9 3 (Some ''approved'') None scenario))
   = Inr [\<lparr>r_id = 1, r_name = ''Asha'', r_position = ''Engineer'', r_department = ''Platform'',
           r_present = 1, r_absent = 0, r_halfDay = 0, r_leave = 3, r_total = 4\<rparr>]"
proof -
  have a: "\<forall>a \<in> set (attendances (snd (putLeave 0 5 9 3 (Some ''approved'') None scenario))).
             localDay 0 (parseDate 2024 1 1) \<le> localDay 0 (a_date a)
             \<and> localDay 0 (a_date a) \<le> localDay 0 (parseDate 2024 1 31)
             \<longrightarrow> findEmployee (snd (putLeave 0 5 9 3 (Some ''approved'') None scenario))
                   (a_employee a) \<noteq> None"
    by code_simp
  have b: "map (\<lambda>x. \<lparr>r_id = e_id x, r_name = e_name x, r_position = e_position x,
                  r_department = e_department x,
                  r_present = recordCount 0 (parseDate 2024 1 1) (parseDate 2024 1 31)
                     (snd (putLeave 0 5 9 3 (Some ''approved'') None scenario)) (e_id x) ''present'',
                  r_absent = recordCount 0 (parseDate 2024 1 1) (parseDate 2024 1 31)
                     (snd (putLeave 0 5 9 3 (Some ''approved'') None scenario)) (e_id x) ''absent'',
                  r_halfDay = recordCount 0 (parseDate 2024 1 1) (parseDate 2024 1 31)
                     (snd (putLeave 0 5 9 3 (Some ''approved'') None scenario)) (e_id x) ''half-day'',
                  r_leave = recordCount 0 (parseDate 2024 1 1) (parseDate 2024 1 31)
                     (snd (putLeave 0 5 9 3 (Some ''approved'') None scenario)) (e_id x) ''leave'',
                  r_total = recordCount 0 (parseDate 2024 1 1) (parseDate 2024 1 31)
                     (snd (putLeave 0 5 9 3 (Some ''approved'') None scenario)) (e_id x) ''present''
                   + recordCount 0 (parseDate 2024 1 1) (parseDate 2024 1 31)
                     (snd (putLeave 0 5 9 3 (Some ''approved'') None scenario)) (e_id x) ''absent''
                   + recordCount 0 (parseDate 2024 1 1) (parseDate 2024 1 31)
                     (snd (putLeave 0 5 9 3 (Some ''approved'') None scenario)) (e_id x) ''half-day''
                   + recordCount 0 (parseDate 2024 1 1) (parseDate 2024 1 31)
                     (snd (putLeave 0 5 9 3 (Some ''approved'') None scenario)) (e_id x) ''leave''\<rparr>)
             (filter (\<lambda>x. e_status x = ''active'')
                (employees (snd (putLeave 0 5 9 3 (Some ''approved'') None scenario))))
           = [\<lparr>r_id = 1, r_name = ''Asha'', r_position = ''Engineer'', r_department = ''Platform'',
               r_present = 1, r_absent = 0, r_halfDay = 0, r_leave = 3, r_total = 4\<rparr>]"
    by code_simp
  show ?thesis
    using attendanceReport_tallies [OF a] unfolding b .
qed

subsection \<open>C7: the leave calendar\<close>


text \<open>
  What the handler does in general, and where it agrees with C7. Given that the employees
  of the approved leaves exist, the calendar of a month consists, for every approved leave
  whose dates pass the overlap filter against the month window (in the order of the
  collection) and for no other leave, of one entry per step of one day from the later of
  the leave's start and the window's start up to the earlier of the leave's end and the
  window's end. When the server's local time is UTC and the dates of the approved leaves
  are calendar days (midnight UTC, as a date without a time is parsed), these are, for
  every approved leave and for no other, the days from the later of the leave's first day
  and the month's first day to the earlier of the leave's last day and the month's last
  day, one entry each. For January 2024 and an approved leave from 2024-01-30 to
  2024-02-02 these are then the entries of 2024-01-30 and 2024-01-31.
\<close>

lemma leaveCalendar_clipped_days:
  assumes populated: "\<forall>l \<in> set (leaves d).
                      l_status l = ''approved'' \<longrightarrow> findEmployee d (l_employee l) \<noteq> None"
  shows "leaveCalendar tz (Some month) (Some year) d
           = Inr (concat (map (\<lambda>l. map (\<lambda>t. \<lparr>c_date = isoDate t,
                                               c_employee = employeeName d (l_employee l),
                                               c_type = l_type l\<rparr>)
                                     (dateRange
                                        (max (l_startDate l) (newDate tz year (month - 1) 1))
                                        (min (l_endDate l) (newDate tz year month 0))))
                            (filter (\<lambda>l. l_status l = ''approved''
                                         \<and> overlapQuery (l_startDate l) (l_endDate l)
                                              (newDate tz year (month - 1) 1)
                                              (newDate tz year month 0))
                               (leaves d))))
         \<and> (tz = 0
              \<and> (\<forall>l \<in> set (leaves d).
                    l_status l = ''approved'' \<longrightarrow>
                    l_startDate l mod msPerDay = 0 \<and> l_endDate l mod msPerDay = 0)
              \<longrightarrow> leaveCalendar tz (Some month) (Some year) d
                    = Inr (concat
                        (map (\<lambda>l. map (\<lambda>k. \<lparr>c_date = civilFromDays k,
                                               c_employee = employeeName d (l_employee l),
                                               c_type = l_type l\<rparr>)
                                     [max (localDay 0 (l_startDate l)) (firstDayOfMonth year month)
                                      .. min (localDay 0 (l_endDate l)) (lastDayOfMonth year month)])
                           (filter (\<lambda>l. l_status l = ''approved'') (leaves d)))))"
proof (intro conjI impI)
  show "leaveCalendar tz (Some month) (Some year) d
           = Inr (concat (map (\<lambda>l. map (\<lambda>t. \<lparr>c_date = isoDate t,
                                               c_employee = employeeName d (l_employee l),
                                               c_type = l_type l\<rparr>)
                                     (dateRange
                                        (max (l_startDate l) (newDate tz year (month - 1) 1))
                                        (min (l_endDate l) (newDate tz year month 0))))
                            (filter (\<lambda>l. l_status l = ''approved''
                                         \<and> overlapQuery (l_startDate l) (l_endDate l)
                                              (newDate tz year (month - 1) 1)
                                              (newDate tz year month 0))
                               (leaves d))))"
    by (rule leaveCalendar_steps [OF populated])
next
  assume utc: "tz = 0
      \<and> (\<forall>l \<in> set (leaves d).
            l_status l = ''approved'' \<longrightarrow>
            l_startDate l mod msPerDay = 0 \<and> l_endDate l mod msPerDay = 0)"
  then have aligned: "\<forall>l \<in> set (leaves d).
            l_status l = ''approved'' \<longrightarrow>
            l_startDate l mod msPerDay = 0 \<and> l_endDate l mod msPerDay = 0"
    by (rule conjunct2)
  from utc have "tz = 0"
    by (rule conjunct1)
  then show "leaveCalendar tz (Some month) (Some year) d
                    = Inr (concat
                        (map (\<lambda>l. map (\<lambda>k. \<lparr>c_date = civilFromDays k,
                                               c_employee = employeeName d (l_employee l),
                                               c_type = l_type l\<rparr>)
                                     [max (localDay 0 (l_startDate l)) (firstDayOfMonth year month)
                                      .. min (localDay 0 (l_endDate l)) (lastDayOfMonth year month)])
                           (filter (\<lambda>l. l_status l = ''approved'') (leaves d))))"
    using leaveCalendar_days [OF aligned populated, of month year] by simp
qed

lemma leaveCalendar_clipped_days_example:
  "leaveCalendar 0 (Some 1) (Some 2024) calendarScenario
     = Inr [\<lparr>c_date = (2024, 1, 30), c_employee = ''Asha'', c_type = ''annual''\<rparr>,
            \<lparr>c_date = (2024, 1, 31), c_employee = ''Asha'', c_type = ''annual''\<rparr>]"
proof -
  have a: "\<forall>l \<in> set (leaves calendarScenario).
             l_status l = ''approved'' \<longrightarrow>
             l_startDate l mod msPerDay = 0 \<and> l_endDate l mod msPerDay = 0"
    by code_simp
  have b: "\<forall>l \<in> set (leaves calendarScenario).
             l_status l = ''approved'' \<longrightarrow> findEmployee calendarScenario (l_employee l) \<noteq> None"
    by code_simp
  have c: "concat (map (\<lambda>l. map (\<lambda>k. \<lparr>c_date = civilFromDays k,
                                        c_employee = employeeName calendarScenario (l_employee l),
                                        c_type = l_type l\<rparr>)
                              [max (localDay 0 (l_startDate l)) (firstDayOfMonth 2024 1)
                               .. min (localDay 0 (l_endDate l)) (lastDayOfMonth 2024 1)])
                     (filter (\<lambda>l. l_status l = ''approved'') (leaves calendarScenario)))
           = [\<lparr>c_date = (2024, 1, 30), c_employee = ''Asha'', c_type = ''annual''\<rparr>,
              \<lparr>c_date = (2024, 1, 31), c_employee = ''Asha'', c_type = ''annual''\<rparr>]"
    by code_simp
  have "leaveCalendar 0 (Some 1) (Some 2024) calendarScenario
          = Inr (concat (map (\<lambda>l. map (\<lambda>k. \<lparr>c_date = civilFromDays k,
                                        c_employee = employeeName calendarScenario (l_employee l),
                                        c_type = l_type l\<rparr>)
                              [max (localDay 0 (l_startDate l)) (firstDayOfMonth 2024 1)
                               .. min (localDay 0 (l_endDate l)) (lastDayOfMonth 2024 1)])
                     (filter (\<lambda>l. l_status l = ''approved'') (leaves calendarScenario))))"
    using leaveCalendar_clipped_days [OF b, of 0 1 2024] a by blast
  then show ?thesis
    unfolding c .
qed

subsection \<open>C8: the calendar route is shadowed\<close>

text \<open>
  C8. \<open>GET /leaves/:id\<close> is registered before \<open>GET /leaves/calendar\<close>, so a \<open>GET\<close> of
  \<open>/leaves/calendar\<close> goes to the \<open>:id\<close> route with \<open>id = 'calendar'\<close>, which is no
  \<open>ObjectId\<close>. A request that passes \<open>auth\<close> is answered 404 \<open>'Leave not found'\<close> (one that
  does not is answered by \<open>auth\<close>), and no request at all is dispatched to the calendar
  handler.
\<close>

theorem calendar_route_shadowed:
  "dispatch GET [''calendar''] = Some (GetLeave, [(''id'', ''calendar'')])
   \<and> castObjectId ''calendar'' = None
   \<and> (\<forall>user. auth verify now token = Inr user \<longrightarrow>
          getLeaveRoute verify now token ''calendar'' d
            = Inl (HttpError 404 ''Leave not found''))
   \<and> (\<forall>e. auth verify now token = Inl e \<longrightarrow>
          getLeaveRoute verify now token ''calendar'' d = Inl e)
   \<and> (\<forall>m path params. dispatch m path \<noteq> Some (LeaveCalendar, params))"
proof (intro conjI allI impI)
  show "dispatch GET [''calendar''] = Some (GetLeave, [(''id'', ''calendar'')])"
    by (simp add: dispatch_def leaveRoutes_def)
  show c: "castObjectId ''calendar'' = None"
    by (simp add: castObjectId_def)
  show "getLeaveRoute verify now token ''calendar'' d = Inl (HttpError 404 ''Leave not found'')"
    if "auth verify now token = Inr user" for user
    using that by (simp add: getLeaveRoute_def getLeave_def c)
  show "getLeaveRoute verify now token ''calendar'' d = Inl e"
    if "auth verify now token = Inl e" for e
    using that by (simp add: getLeaveRoute_def)
  show "dispatch m path \<noteq> Some (LeaveCalendar, params)" for m path params
    by (rule calendar_never_dispatched)
qed

theorem calendar_route_shadowed_witness:
  "auth verifyExample 1704067200000 (Some ''token-of-9'') = Inr 9
   \<and> dispatch GET [''calendar''] = Some (GetLeave, [(''id'', ''calendar'')])
   \<and> getLeaveRoute verifyExample 1704067200000 (Some ''token-of-9'') ''calendar'' calendarScenario
       = Inl (HttpError 404 ''Leave not found'')
   \<and> getLeaveRoute verifyExample 1704067200000 None ''calendar'' calendarScenario
       = Inl (HttpError 401 ''No token, authorization denied'')
   \<and> dispatch GET [''calendar''] \<noteq> Some (LeaveCalendar, [])"
proof -
  have a: "auth verifyExample 1704067200000 (Some ''token-of-9'') = Inr 9"
    by (simp add: auth_def verifyExample_def)
  have b: "auth verifyExample 1704067200000 None
             = Inl (HttpError 401 ''No token, authorization denied'')"
    by (simp add: auth_def)
  show ?thesis
    using a b
      calendar_route_shadowed [of verifyExample 1704067200000 "Some ''token-of-9''"
        calendarScenario]
      calendar_route_shadowed [of verifyExample 1704067200000 None calendarScenario]
    by blast
qed

end
